theory Spec2Isabelle
  imports Main
begin

section \<open>The process the entry points run in\<close>

text \<open>
  The entry points read \<^verbatim>\<open>process.env\<close> and \<^verbatim>\<open>process.cwd()\<close>, one of them writes to
  the console, and the library they call reads and writes the file system and runs the
  bundler while the app and the stack are constructed. The process is an explicit state:
  \<^item> the environment variables (a variable that is not set reads as \<^verbatim>\<open>undefined\<close>, here
    \<open>None\<close>), the working directory, and the key/value pairs of the context that
    \<^verbatim>\<open>new cdk.App()\<close> loads;
  \<^item> the paths that exist in the file system;
  \<^item> what the library finds and is told: the output directory of the app (the one the
    toolkit names, or a fresh temporary directory), the package lock files found by the
    search of the working directory and its ancestors, whether the toolkit has excluded
    the stacks from bundling, and what a run of the bundler on an entry file does: the
    lines printed on standard error, the paths written and whether it succeeds;
  \<^item> the lines written to standard output and to standard error so far;
  \<^item> the resources that exist in the cloud account.
  The entry points end with their last statement: what the app does when the process
  exits is not part of them.
\<close>

datatype LogArg =
    LogString string
  | LogObject "(string \<times> string option) list"

record BundlerRun =
  printed :: "string list"
  written :: "string set"
  succeeded :: bool

record Process =
  env_vars :: "string \<rightharpoonup> string"
  cwd :: string
  cli_context :: "string \<rightharpoonup> string"
  files :: "string set"
  app_outdir :: string
  lock_files :: "string list"
  skip_bundling :: bool
  esbuild :: "string \<Rightarrow> BundlerRun"
  stdout :: "LogArg list list"
  stderr :: "string list"
  cloud_resources :: "string list"

definition console_log :: "LogArg list \<Rightarrow> Process \<Rightarrow> Process" where
  "console_log args p = p\<lparr>stdout := stdout p @ [args]\<rparr>"

text \<open>
  \<^verbatim>\<open>path.join(a, b)\<close> for an absolute, normalised directory \<open>a\<close> (what \<^verbatim>\<open>process.cwd()\<close>
  returns on POSIX) and a relative path \<open>b\<close> without \<^verbatim>\<open>.\<close> or \<^verbatim>\<open>..\<close> segments.
\<close>

definition join :: "string \<Rightarrow> string \<Rightarrow> string" where
  "join a b = (if a = ''/'' then a @ b else a @ ''/'' @ b)"

section \<open>The names the library checks\<close>

definition is_digit :: "char \<Rightarrow> bool" where
  "is_digit c = (c \<in> set ''0123456789'')"

definition is_lower :: "char \<Rightarrow> bool" where
  "is_lower c = (c \<in> set ''abcdefghijklmnopqrstuvwxyz'')"

definition is_upper :: "char \<Rightarrow> bool" where
  "is_upper c = (c \<in> set ''ABCDEFGHIJKLMNOPQRSTUVWXYZ'')"

text \<open>The id of a construct is its path segment: a \<^verbatim>\<open>/\<close> in it is replaced by \<^verbatim>\<open>--\<close>.\<close>

definition sanitizeId :: "string \<Rightarrow> string" where
  "sanitizeId s = concat (map (\<lambda>c. if c = CHR ''/'' then ''--'' else [c]) s)"

text \<open>The name of a stack must match \<^verbatim>\<open>/^[A-Za-z][A-Za-z0-9-]*$/\<close>.\<close>

definition valid_stack_name :: "string \<Rightarrow> bool" where
  "valid_stack_name s =
     (case s of
        [] \<Rightarrow> False
      | c # cs \<Rightarrow> (is_lower c \<or> is_upper c)
                 \<and> list_all (\<lambda>x. is_lower x \<or> is_upper x \<or> is_digit x \<or> x = CHR ''-'') cs)"

definition ends_with :: "string \<Rightarrow> string \<Rightarrow> bool" where
  "ends_with ext s = (length ext \<le> length s \<and> drop (length s - length ext) s = ext)"

text \<open>The entry file of a function must match \<^verbatim>\<open>/\.(jsx?|tsx?|cjs|cts|mjs|mts)$/\<close>.\<close>

definition entry_extensions :: "string list" where
  "entry_extensions = [''.js'', ''.jsx'', ''.ts'', ''.tsx'', ''.cjs'', ''.cts'', ''.mjs'', ''.mts'']"

text \<open>
  The name of an S3 bucket, as \<^verbatim>\<open>Bucket.validateBucketName\<close> checks it: 3 to 63 characters
  out of \<^verbatim>\<open>a-z\<close>, \<^verbatim>\<open>0-9\<close>, \<^verbatim>\<open>.\<close> and \<^verbatim>\<open>-\<close>, a letter or digit first and last, no period next
  to a period or a dash, and not of the form of an IP address.
\<close>

fun adjacent :: "char \<Rightarrow> char \<Rightarrow> string \<Rightarrow> bool" where
  "adjacent a b (x # y # r) = ((x = a \<and> y = b) \<or> adjacent a b (y # r))"
| "adjacent a b r = False"

fun split_on :: "char \<Rightarrow> string \<Rightarrow> string list" where
  "split_on c [] = [[]]"
| "split_on c (x # xs) =
     (if x = c then [] # split_on c xs
      else (case split_on c xs of [] \<Rightarrow> [[x]] | w # ws \<Rightarrow> (x # w) # ws))"

definition ip_like :: "string \<Rightarrow> bool" where
  "ip_like s =
     (let parts = split_on CHR ''.'' s
      in length parts = 4
         \<and> list_all (\<lambda>w. 1 \<le> length w \<and> length w \<le> 3 \<and> list_all is_digit w) parts)"

definition valid_bucket_name :: "string \<Rightarrow> bool" where
  "valid_bucket_name s =
     (3 \<le> length s \<and> length s \<le> 63
      \<and> list_all (\<lambda>c. is_lower c \<or> is_digit c \<or> c = CHR ''.'' \<or> c = CHR ''-'') s
      \<and> (is_lower (hd s) \<or> is_digit (hd s))
      \<and> (is_lower (last s) \<or> is_digit (last s))
      \<and> \<not> adjacent CHR ''.'' CHR ''-'' s
      \<and> \<not> adjacent CHR ''-'' CHR ''.'' s
      \<and> \<not> adjacent CHR ''.'' CHR ''.'' s
      \<and> \<not> ip_like s)"

section \<open>The constructs the stack declares\<close>

text \<open>
  A construct is registered in its scope under an id; the ids from the stack down to the
  construct are its path. The constructors of the library throw: on an id that is empty
  or taken, on a stack name that is too long or malformed, on an entry file that is not
  found, on a lock file that is missing or ambiguous, when the bundler fails, and on an
  asset bucket name that is not valid. Of the constructs a REST API and a function
  declare for themselves, the model has the root resource of the API, its CORS
  preflight and its own output; roles, permissions, the deployment and its stage are not
  part of it.
\<close>

type_synonym path = "string list"

datatype error =
    EmptyId
  | NameCollision path
  | StackNameTooLong string
  | InvalidStackName string
  | UnsupportedEntryFile string
  | CannotFindEntryFile string
  | CannotFindLockFile
  | MultipleLockFiles "string list"
  | BundlingFailed string
  | InvalidBucketNameValue string

datatype Runtime = NODEJS_18_X | NODEJS_20_X | NODEJS_22_X

record NodejsFunctionProps =
  entry :: string
  runtime :: Runtime
  memorySize :: nat

record CorsOptions =
  allowOrigins :: "string list"
  allowMethods :: "string list"

record RestApiProps =
  restApiName :: string
  defaultCorsPreflightOptions :: "CorsOptions option"

text \<open>The two constants of \<^verbatim>\<open>Cors\<close> the stack uses, with the values aws-cdk-lib gives them.\<close>

definition ALL_ORIGINS :: "string list" where
  "ALL_ORIGINS = [''*'']"

definition ALL_METHODS :: "string list" where
  "ALL_METHODS = [''OPTIONS'', ''GET'', ''PUT'', ''POST'', ''DELETE'', ''PATCH'', ''HEAD'']"

text \<open>
  What a method of the API is integrated with: a function of the stack (by its path), or
  the mock integration with which the front door itself answers a CORS preflight.
\<close>

datatype Integration =
    LambdaIntegration path
  | MockIntegration CorsOptions

text \<open>
  An output's value is a literal or the base URL the platform generates for a REST API,
  known only after deployment: \<^verbatim>\<open>api.url\<close> is a reference to the API, not a string.
\<close>

datatype OutputValue =
    Literal string
  | RestApiUrl path

record CfnOutputProps =
  output_value :: OutputValue
  description :: "string option"

datatype Construct =
    NodejsFunction NodejsFunctionProps
  | RestApi RestApiProps
  | Resource
  | Method string Integration
  | CfnOutput CfnOutputProps

record Environment =
  account :: "string option"
  region :: "string option"

record StackProps =
  env :: "Environment option"

text \<open>
  A stack: its id, the account and region it is bound to (\<open>None\<close>: not bound, resolved at
  deployment), the context it sees through its app, and the constructs declared in it,
  in the order of their construction.
\<close>

record Stack =
  stackId :: string
  stack_account :: "string option"
  stack_region :: "string option"
  stack_context :: "string \<rightharpoonup> string"
  nodes :: "(path \<times> Construct) list"

record App =
  app_context :: "string \<rightharpoonup> string"
  stacks :: "Stack list"

text \<open>\<^verbatim>\<open>new cdk.App()\<close>: an app with the context and no stack; its output directory is created.\<close>

definition new_App :: "Process \<Rightarrow> App \<times> Process" where
  "new_App p =
     (\<lparr>app_context = cli_context p, stacks = []\<rparr>,
      p\<lparr>files := insert (app_outdir p) (files p)\<rparr>)"

text \<open>
  A call that may throw and may change the process gives its result, or the error
  thrown, and the process afterwards. \<open>and_then\<close> runs the next call on a result and
  stops at an error; \<open>returns\<close> is a call that only computes.
\<close>

type_synonym 'a action = "Process \<Rightarrow> (error + 'a) \<times> Process"

definition and_then :: "'a action \<Rightarrow> ('a \<Rightarrow> 'b action) \<Rightarrow> 'b action" where
  "and_then m f p = (case m p of (Inl e, p1) \<Rightarrow> (Inl e, p1) | (Inr x, p1) \<Rightarrow> f x p1)"

definition returns :: "error + 'a \<Rightarrow> 'a action" where
  "returns r p = (r, p)"

definition addChild :: "path \<Rightarrow> Construct \<Rightarrow> Stack \<Rightarrow> error + Stack" where
  "addChild pth c s =
     (if pth \<in> set (map fst (nodes s)) then Inl (NameCollision pth)
      else Inr (s\<lparr>nodes := nodes s @ [(pth, c)]\<rparr>))"

text \<open>
  \<^verbatim>\<open>super(scope, id, props)\<close> of a stack in an app: the id is sanitized and must be neither
  empty nor taken in the app; the name of the stack is its id, of at most 128 characters
  and well formed. (For a longer id recent versions of the library derive a shortened
  name; here it is refused, as by the versions before.) The stack has the environment
  of its props, and no construct yet.
\<close>

definition new_Stack :: "App \<Rightarrow> string \<Rightarrow> StackProps option \<Rightarrow> error + Stack" where
  "new_Stack scope sid props =
     (let i = sanitizeId sid;
          e = (case props of None \<Rightarrow> None | Some ps \<Rightarrow> env ps)
      in if i = [] then Inl EmptyId
         else if i \<in> set (map stackId (stacks scope)) then Inl (NameCollision [i])
         else if 128 < length i then Inl (StackNameTooLong i)
         else if \<not> valid_stack_name i then Inl (InvalidStackName i)
         else Inr \<lparr>stackId = i,
                   stack_account = (case e of None \<Rightarrow> None | Some ev \<Rightarrow> account ev),
                   stack_region = (case e of None \<Rightarrow> None | Some ev \<Rightarrow> region ev),
                   stack_context = app_context scope,
                   nodes = []\<rparr>)"

text \<open>The checks of \<^verbatim>\<open>NodejsFunction\<close> before it registers: the entry file and the lock file.\<close>

definition findEntry :: "string \<Rightarrow> Process \<Rightarrow> error + string" where
  "findEntry e p =
     (if \<not> list_ex (\<lambda>ext. ends_with ext e) entry_extensions then Inl (UnsupportedEntryFile e)
      else if e \<notin> files p then Inl (CannotFindEntryFile e)
      else Inr e)"

definition findLockFile :: "Process \<Rightarrow> error + string" where
  "findLockFile p =
     (case lock_files p of
        [] \<Rightarrow> Inl CannotFindLockFile
      | [l] \<Rightarrow> Inr l
      | l # ls \<Rightarrow> Inl (MultipleLockFiles (l # ls)))"

text \<open>
  Staging the code of a function runs the bundler once, while the function is
  constructed, unless the stacks are excluded from bundling: the library announces the
  asset on standard error, the bundler prints and writes what it does, and a failed run
  throws.
\<close>

definition path_string :: "path \<Rightarrow> string" where
  "path_string pth = (case pth of [] \<Rightarrow> [] | x # xs \<Rightarrow> foldl (\<lambda>a b. a @ ''/'' @ b) x xs)"

definition stage_asset :: "path \<Rightarrow> string \<Rightarrow> unit action" where
  "stage_asset pth e p =
     (let run = esbuild p e;
          asset = path_string (pth @ [''Code'', ''Stage'']);
          p1 = p\<lparr>files := files p \<union> written run,
                 stderr := stderr p @ (''Bundling asset '' @ asset @ ''...'') # printed run\<rparr>
      in if skip_bundling p then (Inr (), p)
         else if succeeded run then (Inr (), p1)
         else (Inl (BundlingFailed asset), p1))"

text \<open>
  The bucket of the staged asset is that of the default bootstrap stack. When account
  and region of the stack are both given its name is a plain string, which is validated;
  when one is left to deployment the name is a reference, which is not.
\<close>

definition bootstrap_qualifier :: "(string \<rightharpoonup> string) \<Rightarrow> string" where
  "bootstrap_qualifier ctx =
     (case ctx ''@aws-cdk/core:bootstrapQualifier'' of None \<Rightarrow> ''hnb659fds'' | Some q \<Rightarrow> q)"

definition asset_bucket :: "(string \<rightharpoonup> string) \<Rightarrow> string option \<Rightarrow> string option \<Rightarrow> string option" where
  "asset_bucket ctx acct reg =
     (case acct of
        None \<Rightarrow> None
      | Some a \<Rightarrow> (case reg of
                     None \<Rightarrow> None
                   | Some r \<Rightarrow> Some (''cdk-'' @ bootstrap_qualifier ctx @ ''-assets-'' @ a @ ''-'' @ r)))"

definition check_asset_bucket :: "Stack \<Rightarrow> error + unit" where
  "check_asset_bucket s =
     (case asset_bucket (stack_context s) (stack_account s) (stack_region s) of
        None \<Rightarrow> Inr ()
      | Some n \<Rightarrow> if valid_bucket_name n then Inr () else Inl (InvalidBucketNameValue n))"

definition new_NodejsFunction ::
  "string \<Rightarrow> NodejsFunctionProps \<Rightarrow> Stack \<Rightarrow> (path \<times> Stack) action" where
  "new_NodejsFunction cid props s =
     and_then (\<lambda>p. (findEntry (entry props) p, p)) (\<lambda>e.
     and_then (\<lambda>p. (findLockFile p, p)) (\<lambda>lock.
     and_then (returns (addChild [cid] (NodejsFunction props) s)) (\<lambda>s1.
     and_then (stage_asset [stackId s, cid] e) (\<lambda>staged.
     and_then (returns (check_asset_bucket s1)) (\<lambda>checked.
     returns (Inr ([cid], s1)))))))"

text \<open>\<^verbatim>\<open>resource.addMethod(httpMethod, integration)\<close>: a Method construct under the resource, with the HTTP method as its id.\<close>

definition addMethod :: "path \<Rightarrow> string \<Rightarrow> Integration \<Rightarrow> Stack \<Rightarrow> error + Stack" where
  "addMethod res httpMethod integration s =
     addChild (res @ [httpMethod]) (Method httpMethod integration) s"

text \<open>\<^verbatim>\<open>api.root\<close>: the root resource of a REST API has the id \<^verbatim>\<open>Default\<close>.\<close>

definition root :: "path \<Rightarrow> path" where
  "root api = api @ [''Default'']"

definition url :: "path \<Rightarrow> OutputValue" where
  "url api = RestApiUrl api"

definition new_CfnOutput :: "path \<Rightarrow> CfnOutputProps \<Rightarrow> Stack \<Rightarrow> error + Stack" where
  "new_CfnOutput pth props s = addChild pth (CfnOutput props) s"

text \<open>
  \<^verbatim>\<open>new RestApi(scope, id, props)\<close> declares the API. The props leave \<^verbatim>\<open>deploy\<close> at its
  default, so the API has a deployment and declares an output of its own, \<^verbatim>\<open>Endpoint\<close>,
  with its URL. Then it declares its root resource, and when the props give
  \<^verbatim>\<open>defaultCorsPreflightOptions\<close> it adds the CORS preflight to the root as it is created:
  a method OPTIONS with a mock integration.
\<close>

definition new_RestApi :: "string \<Rightarrow> RestApiProps \<Rightarrow> Stack \<Rightarrow> error + (path \<times> Stack)" where
  "new_RestApi cid props s =
     (case addChild [cid] (RestApi props) s of Inl e \<Rightarrow> Inl e | Inr s1 \<Rightarrow>
     (case new_CfnOutput [cid, ''Endpoint'']
             \<lparr>output_value = url [cid], description = None\<rparr> s1 of Inl e \<Rightarrow> Inl e | Inr s2 \<Rightarrow>
     (case addChild (root [cid]) Resource s2 of Inl e \<Rightarrow> Inl e | Inr s3 \<Rightarrow>
     (case (case defaultCorsPreflightOptions props of
              None \<Rightarrow> Inr s3
            | Some cors \<Rightarrow> addMethod (root [cid]) ''OPTIONS'' (MockIntegration cors) s3)
      of Inl e \<Rightarrow> Inl e | Inr s4 \<Rightarrow> Inr ([cid], s4)))))"

section \<open>lib/stacks/api-stack.ts\<close>

text \<open>
  The constructor of \<^verbatim>\<open>ApiStack\<close>, with the app as its scope. After \<^verbatim>\<open>super\<close> the body
  declares the function, the API, the GET method on the API's root and the output, in
  this order; a throw anywhere aborts the construction.
\<close>

definition ApiStack_body :: "Stack \<Rightarrow> Stack action" where
  "ApiStack_body this p =
     and_then (new_NodejsFunction ''HelloFunction''
                 \<lparr>entry = join (cwd p) ''src/handlers/hello-world/index.ts'',
                  runtime = NODEJS_20_X,
                  memorySize = 256\<rparr> this) (\<lambda>(helloFn, s1).
     and_then (returns (new_RestApi ''ServiceApi''
                 \<lparr>restApiName = ''Lambda Api'',
                  defaultCorsPreflightOptions =
                    Some \<lparr>allowOrigins = ALL_ORIGINS, allowMethods = ALL_METHODS\<rparr>\<rparr> s1)) (\<lambda>(api, s2).
     (let helloIntegration = LambdaIntegration helloFn in
      and_then (returns (addMethod (root api) ''GET'' helloIntegration s2)) (\<lambda>s3.
      returns (new_CfnOutput [''ApiUrl'']
        \<lparr>output_value = url api, description = Some ''Base URL of the REST API''\<rparr> s3))))) p"

definition ApiStack :: "App \<Rightarrow> string \<Rightarrow> StackProps option \<Rightarrow> (Stack \<times> App) action" where
  "ApiStack scope sid props =
     and_then (returns (new_Stack scope sid props)) (\<lambda>this0.
     and_then (ApiStack_body this0) (\<lambda>this.
     returns (Inr (this, scope\<lparr>stacks := stacks scope @ [this]\<rparr>))))"

section \<open>The entry points\<close>

text \<open>
  \<^verbatim>\<open>bin/cdk-demo.ts\<close>: the account and the region are read from the environment variables
  \<^verbatim>\<open>CDK_DEFAULT_ACCOUNT\<close> and \<^verbatim>\<open>AWS_REGION\<close>, printed, and given to the stack. The result is
  the app (or the error thrown) and the process afterwards.
\<close>

definition cdk_demo :: "App action" where
  "cdk_demo p =
     (let (app, p0) = new_App p;
          p1 = console_log
                 [LogString ''{ account: process.env.CDK_DEFAULT_ACCOUNT, region: process.env.AWS_REGION }'',
                  LogObject [(''account'', env_vars p0 ''CDK_DEFAULT_ACCOUNT''),
                             (''region'', env_vars p0 ''AWS_REGION'')]] p0
      in and_then (ApiStack app ''ApiStack''
                      (Some \<lparr>env = Some \<lparr>account = env_vars p1 ''CDK_DEFAULT_ACCOUNT'',
                                          region = env_vars p1 ''AWS_REGION''\<rparr>\<rparr>))
                   (\<lambda>(st, app1). returns (Inr app1)) p1)"

text \<open>The other variant of the entry point (\<^verbatim>\<open>src/unnamed/part_000\<close>): account and region are constants.\<close>

definition part_000 :: "App action" where
  "part_000 p =
     (let (app, p0) = new_App p
      in and_then (ApiStack app ''ApiStack''
                      (Some \<lparr>env = Some \<lparr>account = Some ''339713054130'',
                                          region = Some ''ap-south-1''\<rparr>\<rparr>))
                   (\<lambda>(st, app1). returns (Inr app1)) p0)"

section \<open>Reading a stack\<close>

definition functions_of :: "Stack \<Rightarrow> (path \<times> NodejsFunctionProps) list" where
  "functions_of s = concat (map (\<lambda>(pth, c). case c of NodejsFunction fp \<Rightarrow> [(pth, fp)] | _ \<Rightarrow> []) (nodes s))"

definition apis_of :: "Stack \<Rightarrow> (path \<times> RestApiProps) list" where
  "apis_of s = concat (map (\<lambda>(pth, c). case c of RestApi ap \<Rightarrow> [(pth, ap)] | _ \<Rightarrow> []) (nodes s))"

definition outputs_of :: "Stack \<Rightarrow> (path \<times> CfnOutputProps) list" where
  "outputs_of s = concat (map (\<lambda>(pth, c). case c of CfnOutput op \<Rightarrow> [(pth, op)] | _ \<Rightarrow> []) (nodes s))"

text \<open>The methods bound to a resource, with their integrations, in the order of declaration.\<close>

definition methods_of :: "path \<Rightarrow> Stack \<Rightarrow> (string \<times> Integration) list" where
  "methods_of res s =
     concat (map (\<lambda>(pth, c). case c of
                     Method m i \<Rightarrow> (if pth = res @ [m] then [(m, i)] else [])
                   | _ \<Rightarrow> []) (nodes s))"

text \<open>The methods of a resource that invoke a function of the stack, with the function's path.\<close>

definition function_methods :: "path \<Rightarrow> Stack \<Rightarrow> (string \<times> path) list" where
  "function_methods res s =
     concat (map (\<lambda>(m, i). case i of LambdaIntegration f \<Rightarrow> [(m, f)] | MockIntegration _ \<Rightarrow> [])
                 (methods_of res s))"

text \<open>
  The integration a request for a resource is routed to: that of the method declared
  on the resource for the request's HTTP method, or else that of a method ANY. A request
  with no such method is rejected by the front door.
\<close>

definition integration_for :: "Stack \<Rightarrow> path \<Rightarrow> string \<Rightarrow> Integration option" where
  "integration_for s res m =
     (case map_of (methods_of res s) m of
        Some i \<Rightarrow> Some i
      | None \<Rightarrow> map_of (methods_of res s) ''ANY'')"

section \<open>When the constructor succeeds\<close>

text \<open>
  The conditions the constructor of the stack checks, one after the other: the id is
  accepted as the id and name of a stack of the app; the entry file of the handler
  exists under the working directory and one lock file is found; the run of the bundler
  succeeds, or bundling is skipped; and the account and region of the props, when both
  are given, make a valid name of the asset bucket.
\<close>

definition stack_id_accepted :: "App \<Rightarrow> string \<Rightarrow> bool" where
  "stack_id_accepted scope sid =
     (sanitizeId sid \<noteq> [] \<and> sanitizeId sid \<notin> set (map stackId (stacks scope))
      \<and> length (sanitizeId sid) \<le> 128 \<and> valid_stack_name (sanitizeId sid))"

definition handler_entry :: "Process \<Rightarrow> string" where
  "handler_entry p = join (cwd p) ''src/handlers/hello-world/index.ts''"

definition handler_found :: "Process \<Rightarrow> bool" where
  "handler_found p = (handler_entry p \<in> files p \<and> length (lock_files p) = 1)"

definition handler_bundles :: "Process \<Rightarrow> bool" where
  "handler_bundles p = (skip_bundling p \<or> succeeded (esbuild p (handler_entry p)))"

definition env_accepted :: "(string \<rightharpoonup> string) \<Rightarrow> string option \<Rightarrow> string option \<Rightarrow> bool" where
  "env_accepted ctx acct reg =
     (case asset_bucket ctx acct reg of None \<Rightarrow> True | Some n \<Rightarrow> valid_bucket_name n)"

definition props_account :: "StackProps option \<Rightarrow> string option" where
  "props_account props =
     (case props of None \<Rightarrow> None
      | Some ps \<Rightarrow> (case env ps of None \<Rightarrow> None | Some ev \<Rightarrow> account ev))"

definition props_region :: "StackProps option \<Rightarrow> string option" where
  "props_region props =
     (case props of None \<Rightarrow> None
      | Some ps \<Rightarrow> (case env ps of None \<Rightarrow> None | Some ev \<Rightarrow> region ev))"

definition ApiStack_ready :: "App \<Rightarrow> string \<Rightarrow> StackProps option \<Rightarrow> Process \<Rightarrow> bool" where
  "ApiStack_ready scope sid props p =
     (stack_id_accepted scope sid \<and> handler_found p \<and> handler_bundles p
      \<and> env_accepted (app_context scope) (props_account props) (props_region props))"

text \<open>
  The process after the code of the function of the stack has been staged: the bundler
  has run once, unless bundling is skipped.
\<close>

definition after_bundling :: "string \<Rightarrow> Process \<Rightarrow> Process" where
  "after_bundling sid p =
     (if skip_bundling p then p
      else p\<lparr>files := files p \<union> written (esbuild p (handler_entry p)),
             stderr := stderr p
               @ (''Bundling asset '' @ sanitizeId sid @ ''/HelloFunction/Code/Stage...'')
                 # printed (esbuild p (handler_entry p))\<rparr>)"

text \<open>
  An entry point succeeds when, in the process after \<^verbatim>\<open>new cdk.App()\<close>, the handler is
  found and bundles and its binding is accepted.
\<close>

definition entry_point_ready :: "string option \<Rightarrow> string option \<Rightarrow> Process \<Rightarrow> bool" where
  "entry_point_ready acct reg p =
     (handler_found p \<and> handler_bundles p \<and> env_accepted (cli_context p) acct reg)"

section \<open>Selecting an environment\<close>




text \<open>
  A process to evaluate the entry points in: a checkout of the repository with its
  handler and one lock file, an output directory that does not exist yet, a bundler
  that prints one line and writes the bundle, no variable set, nothing printed yet and
  nothing deployed.
\<close>

definition checkout :: Process where
  "checkout =
     \<lparr>env_vars = Map.empty,
      cwd = ''/work/cdk-demo'',
      cli_context = Map.empty,
      files = {''/work/cdk-demo/src/handlers/hello-world/index.ts'',
               ''/work/cdk-demo/package-lock.json''},
      app_outdir = ''/work/cdk-demo/cdk.out'',
      lock_files = [''/work/cdk-demo/package-lock.json''],
      skip_bundling = False,
      esbuild = (\<lambda>e. \<lparr>printed = [''Done''],
                        written = {''/work/cdk-demo/cdk.out/asset/index.js''},
                        succeeded = True\<rparr>),
      stdout = [],
      stderr = [],
      cloud_resources = []\<rparr>"

section \<open>The compute handler\<close>

text \<open>
  Modelled from the spec: the time of an invocation as an ISO-8601 string. The handler's
  file is not among the sources; the spec asks for the current timestamp in ISO-8601
  form, and the repository's documentation shows \<^verbatim>\<open>2025-11-12T00:00:00.000Z\<close>, the form
  of \<^verbatim>\<open>Date.prototype.toISOString\<close>. The clock is read in milliseconds since 1970-01-01
  UTC; a year past 9999 is written with a sign and six digits.
\<close>

definition is_leap :: "nat \<Rightarrow> bool" where
  "is_leap y = (y mod 4 = 0 \<and> (y mod 400 = 0 \<or> y mod 100 \<noteq> 0))"

definition days_in_year :: "nat \<Rightarrow> nat" where
  "days_in_year y = (if is_leap y then 366 else 365)"

text \<open>
  \<open>year_of y d\<close>: the year of the day \<open>d\<close> days after the first of January of the year \<open>y\<close>,
  and the day in that year, from 0. \<open>month_of\<close>: the month of a day of the year, from the
  lengths of the months, and the day in that month, from 0.
\<close>

function year_of :: "nat \<Rightarrow> nat \<Rightarrow> nat \<times> nat" where
  "year_of y d = (if d < days_in_year y then (y, d) else year_of (Suc y) (d - days_in_year y))"
  by pat_completeness auto
termination
  by (relation "measure (\<lambda>(y, d). d)") (auto simp: days_in_year_def)

declare year_of.simps [simp del]

definition month_lengths :: "nat \<Rightarrow> nat list" where
  "month_lengths y = [31, if is_leap y then 29 else 28, 31, 30, 31, 30, 31, 31, 30, 31, 30, 31]"

fun month_of :: "nat list \<Rightarrow> nat \<Rightarrow> nat \<Rightarrow> nat \<times> nat" where
  "month_of [] m d = (m, d)"
| "month_of (l # ls) m d = (if d < l then (m, d) else month_of ls (Suc m) (d - l))"

text \<open>\<open>digits w n\<close>: the number \<open>n\<close> in \<open>w\<close> decimal digits, padded with zeros.\<close>

definition digit_char :: "nat \<Rightarrow> char" where
  "digit_char k = ''0123456789'' ! (k mod 10)"

fun digits :: "nat \<Rightarrow> nat \<Rightarrow> string" where
  "digits 0 n = []"
| "digits (Suc w) n = digits w (n div 10) @ [digit_char n]"

definition toISOString :: "nat \<Rightarrow> string" where
  "toISOString ms =
     (let t = ms mod 86400000;
          (y, doy) = year_of 1970 (ms div 86400000);
          (m, d) = month_of (month_lengths y) 1 doy
      in (if y \<le> 9999 then digits 4 y else ''+'' @ digits 6 y)
         @ ''-'' @ digits 2 m @ ''-'' @ digits 2 (Suc d)
         @ ''T'' @ digits 2 (t div 3600000) @ '':'' @ digits 2 (t div 60000 mod 60)
         @ '':'' @ digits 2 (t div 1000 mod 60) @ ''.'' @ digits 3 (t mod 1000) @ ''Z'')"

text \<open>
  Modelled from the spec: the compute handler, \<^verbatim>\<open>src/handlers/hello-world/index.ts\<close>, the
  entry file of the function the stack declares, which is not among the sources. By the
  spec it needs no input and returns the status 200, a permissive cross-origin header
  and a JSON content type, and a body with the fixed greeting and the current timestamp.
  The body is the JSON object itself, its members in order; the event is of any type,
  and the clock reading is an argument.
\<close>

datatype handler_error = Thrown string

record Response =
  statusCode :: nat
  headers :: "(string \<times> string) list"
  body :: "(string \<times> string) list"

definition handler :: "'event \<Rightarrow> nat \<Rightarrow> handler_error + Response" where
  "handler event now =
     Inr \<lparr>statusCode = 200,
          headers = [(''Access-Control-Allow-Origin'', ''*''),
                     (''Content-Type'', ''application/json'')],
          body = [(''message'', ''Hello from Lambda!''),
                  (''timestamp'', toISOString now)]\<rparr>"

text \<open>
  Reading a timestamp back: a string of the form \<^verbatim>\<open>YYYY-MM-DDTHH:MM:SS.mmmZ\<close> (or with the
  year as \<^verbatim>\<open>+YYYYYY\<close>) whose month, day, hour, minute and second are in range.
\<close>

definition digit_value :: "char \<Rightarrow> nat" where
  "digit_value c = of_char c - 48"

definition number :: "string \<Rightarrow> nat" where
  "number s = foldl (\<lambda>n c. 10 * n + digit_value c) 0 s"

definition is_number :: "nat \<Rightarrow> string \<Rightarrow> bool" where
  "is_number w s = (length s = w \<and> list_all is_digit s)"

definition is_iso8601 :: "string \<Rightarrow> bool" where
  "is_iso8601 s =
     (let (yr, r) = (if take 1 s = ''+'' then (take 6 (drop 1 s), drop 7 s)
                     else (take 4 s, drop 4 s));
          mo = take 2 (drop 1 r); dy = take 2 (drop 4 r);
          hh = take 2 (drop 7 r); mi = take 2 (drop 10 r); ss = take 2 (drop 13 r);
          fr = take 3 (drop 16 r)
      in (if take 1 s = ''+'' then is_number 6 yr else is_number 4 yr) \<and> length r = 20
         \<and> take 1 r = ''-'' \<and> is_number 2 mo \<and> 1 \<le> number mo \<and> number mo \<le> 12
         \<and> take 1 (drop 3 r) = ''-'' \<and> is_number 2 dy \<and> 1 \<le> number dy \<and> number dy \<le> 31
         \<and> take 1 (drop 6 r) = ''T'' \<and> is_number 2 hh \<and> number hh \<le> 23
         \<and> take 1 (drop 9 r) = '':'' \<and> is_number 2 mi \<and> number mi \<le> 59
         \<and> take 1 (drop 12 r) = '':'' \<and> is_number 2 ss \<and> number ss \<le> 59
         \<and> take 1 (drop 15 r) = ''.'' \<and> is_number 3 fr
         \<and> drop 19 r = ''Z'')"

section \<open>The constructor of the stack\<close>

lemma ends_with_ts: "ends_with ''.ts'' (join d ''src/handlers/hello-world/index.ts'')"
  by (simp add: ends_with_def join_def)

lemma findEntry_handler:
  "findEntry (handler_entry p) p =
     (if handler_entry p \<in> files p then Inr (handler_entry p)
      else Inl (CannotFindEntryFile (handler_entry p)))"
  using ends_with_ts [of "cwd p"]
  by (simp add: findEntry_def handler_entry_def entry_extensions_def)

lemma findLockFile_one: "length (lock_files p) = 1 \<Longrightarrow> \<not> isl (findLockFile p)"
  by (cases "lock_files p") (auto simp: findLockFile_def split: list.splits)

lemma findLockFile_other: "length (lock_files p) \<noteq> 1 \<Longrightarrow> isl (findLockFile p)"
  by (cases "lock_files p") (auto simp: findLockFile_def split: list.splits)

lemma new_Stack_accepted:
  "stack_id_accepted scope sid \<Longrightarrow>
   new_Stack scope sid props =
     Inr \<lparr>stackId = sanitizeId sid,
          stack_account = props_account props,
          stack_region = props_region props,
          stack_context = app_context scope,
          nodes = []\<rparr>"
  by (simp add: new_Stack_def stack_id_accepted_def props_account_def props_region_def Let_def
      split: option.splits)

lemma new_Stack_refused:
  "\<not> stack_id_accepted scope sid \<Longrightarrow> isl (new_Stack scope sid props)"
  by (auto simp: new_Stack_def stack_id_accepted_def Let_def)

text \<open>The function, declared in a stack that has no construct yet: the four outcomes.\<close>

lemma new_NodejsFunction_not_found:
  assumes "\<not> handler_found p"
  shows "\<exists>e. new_NodejsFunction cid \<lparr>entry = handler_entry p, runtime = rt, memorySize = mem\<rparr> s p
              = (Inl e, p)"
proof (cases "handler_entry p \<in> files p")
  case False
  then show ?thesis
    by (simp add: new_NodejsFunction_def and_then_def findEntry_handler)
next
  case True
  with assms have "length (lock_files p) \<noteq> 1" by (simp add: handler_found_def)
  then have "isl (findLockFile p)" by (rule findLockFile_other)
  then obtain e where "findLockFile p = Inl e" by (cases "findLockFile p") auto
  with True show ?thesis
    by (simp add: new_NodejsFunction_def and_then_def findEntry_handler)
qed

lemma new_NodejsFunction_staged:
  assumes "nodes s = []" and "handler_found p"
  shows "new_NodejsFunction cid \<lparr>entry = handler_entry p, runtime = rt, memorySize = mem\<rparr> s p =
     (if \<not> handler_bundles p
      then Inl (BundlingFailed (stackId s @ ''/'' @ cid @ ''/Code/Stage''))
      else (case asset_bucket (stack_context s) (stack_account s) (stack_region s) of
              None \<Rightarrow> Inr ([cid], s\<lparr>nodes := [([cid],
                        NodejsFunction \<lparr>entry = handler_entry p, runtime = rt, memorySize = mem\<rparr>)]\<rparr>)
            | Some n \<Rightarrow>
                if valid_bucket_name n
                then Inr ([cid], s\<lparr>nodes := [([cid],
                        NodejsFunction \<lparr>entry = handler_entry p, runtime = rt, memorySize = mem\<rparr>)]\<rparr>)
                else Inl (InvalidBucketNameValue n)),
      if skip_bundling p then p
      else p\<lparr>files := files p \<union> written (esbuild p (handler_entry p)),
             stderr := stderr p
               @ (''Bundling asset '' @ stackId s @ ''/'' @ cid @ ''/Code/Stage...'')
                 # printed (esbuild p (handler_entry p))\<rparr>)"
proof -
  from assms(2) have found: "handler_entry p \<in> files p" and "length (lock_files p) = 1"
    by (simp_all add: handler_found_def)
  then have "\<not> isl (findLockFile p)" by (simp add: findLockFile_one)
  then obtain l where "findLockFile p = Inr l" by (cases "findLockFile p") auto
  with found assms(1) show ?thesis
    by (simp add: new_NodejsFunction_def and_then_def findEntry_handler
        returns_def addChild_def stage_asset_def path_string_def Let_def handler_bundles_def
        check_asset_bucket_def split: option.split)
qed

lemma ApiStack_refused_id:
  assumes "\<not> stack_id_accepted scope sid"
  shows "\<exists>e. ApiStack scope sid props p = (Inl e, p)"
proof -
  from assms have "isl (new_Stack scope sid props)" by (rule new_Stack_refused)
  then obtain e where "new_Stack scope sid props = Inl e"
    by (cases "new_Stack scope sid props") auto
  then show ?thesis by (simp add: ApiStack_def and_then_def returns_def)
qed

lemma ApiStack_not_found:
  assumes "stack_id_accepted scope sid" and "\<not> handler_found p"
  shows "\<exists>e. ApiStack scope sid props p = (Inl e, p)"
proof -
  from new_NodejsFunction_not_found [OF assms(2)] obtain e where
    "new_NodejsFunction ''HelloFunction''
       \<lparr>entry = handler_entry p, runtime = NODEJS_20_X, memorySize = 256\<rparr>
       \<lparr>stackId = sanitizeId sid, stack_account = props_account props,
        stack_region = props_region props, stack_context = app_context scope, nodes = []\<rparr> p
     = (Inl e, p)"
    by blast
  then show ?thesis
    unfolding ApiStack_def ApiStack_body_def handler_entry_def [symmetric]
    by (simp add: new_Stack_accepted [OF assms(1)] and_then_def returns_def)
qed

lemma ApiStack_bundling_failed:
  assumes "stack_id_accepted scope sid" and "handler_found p" and "\<not> handler_bundles p"
  shows "ApiStack scope sid props p =
     (Inl (BundlingFailed (sanitizeId sid @ ''/HelloFunction/Code/Stage'')), after_bundling sid p)"
  unfolding ApiStack_def ApiStack_body_def handler_entry_def [symmetric]
  using assms(3)
  by (simp add: new_Stack_accepted [OF assms(1)] new_NodejsFunction_staged [OF _ assms(2)]
      and_then_def returns_def after_bundling_def)

lemma ApiStack_bucket_refused:
  assumes "stack_id_accepted scope sid" and "handler_found p" and "handler_bundles p"
    and "asset_bucket (app_context scope) (props_account props) (props_region props) = Some n"
    and "\<not> valid_bucket_name n"
  shows "ApiStack scope sid props p = (Inl (InvalidBucketNameValue n), after_bundling sid p)"
  unfolding ApiStack_def ApiStack_body_def handler_entry_def [symmetric]
  using assms(3-5)
  by (simp add: new_Stack_accepted [OF assms(1)] new_NodejsFunction_staged [OF _ assms(2)]
      and_then_def returns_def after_bundling_def)

lemma ApiStack_built:
  assumes "ApiStack_ready scope sid props p"
  shows "ApiStack scope sid props p =
     (let this =
        \<lparr>stackId = sanitizeId sid,
         stack_account = props_account props,
         stack_region = props_region props,
         stack_context = app_context scope,
         nodes =
           [([''HelloFunction''],
               NodejsFunction \<lparr>entry = handler_entry p, runtime = NODEJS_20_X, memorySize = 256\<rparr>),
            ([''ServiceApi''],
               RestApi \<lparr>restApiName = ''Lambda Api'',
                        defaultCorsPreflightOptions =
                          Some \<lparr>allowOrigins = ALL_ORIGINS, allowMethods = ALL_METHODS\<rparr>\<rparr>),
            ([''ServiceApi'', ''Endpoint''],
               CfnOutput \<lparr>output_value = RestApiUrl [''ServiceApi''], description = None\<rparr>),
            ([''ServiceApi'', ''Default''], Resource),
            ([''ServiceApi'', ''Default'', ''OPTIONS''],
               Method ''OPTIONS''
                 (MockIntegration \<lparr>allowOrigins = ALL_ORIGINS, allowMethods = ALL_METHODS\<rparr>)),
            ([''ServiceApi'', ''Default'', ''GET''],
               Method ''GET'' (LambdaIntegration [''HelloFunction''])),
            ([''ApiUrl''],
               CfnOutput \<lparr>output_value = RestApiUrl [''ServiceApi''],
                          description = Some ''Base URL of the REST API''\<rparr>)]\<rparr>
      in (Inr (this, scope\<lparr>stacks := stacks scope @ [this]\<rparr>), after_bundling sid p))"
proof -
  from assms have acc: "stack_id_accepted scope sid" and found: "handler_found p"
    and rest: "handler_bundles p"
      "env_accepted (app_context scope) (props_account props) (props_region props)"
    by (simp_all add: ApiStack_ready_def)
  show ?thesis
  proof (cases "asset_bucket (app_context scope) (props_account props) (props_region props)")
    case None
    with rest(1) show ?thesis
      unfolding ApiStack_def ApiStack_body_def handler_entry_def [symmetric]
      by (simp add: new_Stack_accepted [OF acc] new_NodejsFunction_staged [OF _ found]
          and_then_def returns_def after_bundling_def
          new_RestApi_def addMethod_def new_CfnOutput_def addChild_def root_def url_def Let_def)
  next
    case (Some n)
    with rest(2) have "valid_bucket_name n" by (simp add: env_accepted_def)
    with Some rest(1) show ?thesis
      unfolding ApiStack_def ApiStack_body_def handler_entry_def [symmetric]
      by (simp add: new_Stack_accepted [OF acc] new_NodejsFunction_staged [OF _ found]
          and_then_def returns_def after_bundling_def
          new_RestApi_def addMethod_def new_CfnOutput_def addChild_def root_def url_def Let_def)
  qed
qed

lemma ApiStack_fails_unless_ready:
  assumes "\<not> ApiStack_ready scope sid props p"
  shows "isl (fst (ApiStack scope sid props p))"
proof (cases "stack_id_accepted scope sid")
  case False
  from ApiStack_refused_id [OF this, of props p] show ?thesis by auto
next
  case acc: True
  show ?thesis
  proof (cases "handler_found p")
    case False
    from ApiStack_not_found [OF acc this, of props] show ?thesis by auto
  next
    case found: True
    show ?thesis
    proof (cases "handler_bundles p")
      case False
      from ApiStack_bundling_failed [OF acc found this, of props] show ?thesis by simp
    next
      case True
      with assms acc found
      have "\<not> env_accepted (app_context scope) (props_account props) (props_region props)"
        by (simp add: ApiStack_ready_def)
      then obtain n where
        "asset_bucket (app_context scope) (props_account props) (props_region props) = Some n"
        and "\<not> valid_bucket_name n"
        by (auto simp: env_accepted_def split: option.splits)
      from ApiStack_bucket_refused [OF acc found True this] show ?thesis by simp
    qed
  qed
qed

lemma ApiStack_succeeds_iff:
  "\<not> isl (fst (ApiStack scope sid props p)) \<longleftrightarrow> ApiStack_ready scope sid props p"
proof
  assume "\<not> isl (fst (ApiStack scope sid props p))"
  then show "ApiStack_ready scope sid props p"
    using ApiStack_fails_unless_ready by blast
next
  assume "ApiStack_ready scope sid props p"
  from ApiStack_built [OF this] show "\<not> isl (fst (ApiStack scope sid props p))"
    by (simp add: Let_def)
qed

text \<open>The effect of the constructor on the process: the bundler has run once, or not at all.\<close>

lemma ApiStack_effect:
  "snd (ApiStack scope sid props p) =
     (if stack_id_accepted scope sid \<and> handler_found p then after_bundling sid p else p)"
proof (cases "stack_id_accepted scope sid")
  case False
  from ApiStack_refused_id [OF this, of props p] False show ?thesis by auto
next
  case acc: True
  show ?thesis
  proof (cases "handler_found p")
    case False
    from ApiStack_not_found [OF acc this, of props] False show ?thesis by auto
  next
    case found: True
    show ?thesis
    proof (cases "ApiStack_ready scope sid props p")
      case True
      from ApiStack_built [OF this] acc found show ?thesis by (simp add: Let_def)
    next
      case notready: False
      show ?thesis
      proof (cases "handler_bundles p")
        case False
        from ApiStack_bundling_failed [OF acc found this, of props] acc found
        show ?thesis by simp
      next
        case True
        with notready acc found
        have "\<not> env_accepted (app_context scope) (props_account props) (props_region props)"
          by (simp add: ApiStack_ready_def)
        then obtain n where
          "asset_bucket (app_context scope) (props_account props) (props_region props) = Some n"
          and "\<not> valid_bucket_name n"
          by (auto simp: env_accepted_def split: option.splits)
        from ApiStack_bucket_refused [OF acc found True this] acc found
        show ?thesis by simp
      qed
    qed
  qed
qed

section \<open>The entry points: when they succeed\<close>

lemma new_App_frame:
  "fst (new_App p) = \<lparr>app_context = cli_context p, stacks = []\<rparr>"
  "cli_context (snd (new_App p)) = cli_context p"
  "env_vars (snd (new_App p)) = env_vars p"
  "cwd (snd (new_App p)) = cwd p"
  "skip_bundling (snd (new_App p)) = skip_bundling p"
  "esbuild (snd (new_App p)) = esbuild p"
  "handler_entry (snd (new_App p)) = handler_entry p"
  "files (snd (new_App p)) = insert (app_outdir p) (files p)"
  by (simp_all add: new_App_def handler_entry_def)

lemma ApiStack_id_accepted: "stack_id_accepted (fst (new_App p)) ''ApiStack''"
  by (simp add: stack_id_accepted_def new_App_def sanitizeId_def valid_stack_name_def
      is_lower_def is_upper_def is_digit_def)

lemma constants_accepted_by_default:
  "env_accepted Map.empty (Some ''339713054130'') (Some ''ap-south-1'')"
  by (simp add: env_accepted_def asset_bucket_def bootstrap_qualifier_def valid_bucket_name_def
      ip_like_def is_lower_def is_digit_def)

lemma empty_strings_refused:
  "asset_bucket Map.empty (Some []) (Some []) = Some ''cdk-hnb659fds-assets--''
   \<and> \<not> valid_bucket_name ''cdk-hnb659fds-assets--''"
  by (simp add: asset_bucket_def bootstrap_qualifier_def valid_bucket_name_def
      is_lower_def is_digit_def)

lemma unbound_accepted: "env_accepted ctx None r \<and> env_accepted ctx a None"
  by (simp add: env_accepted_def asset_bucket_def split: option.split)

lemma checkout_handler:
  "handler_found checkout \<and> handler_bundles checkout
   \<and> handler_found (snd (new_App checkout)) \<and> handler_bundles (snd (new_App checkout))"
  by (simp add: handler_found_def handler_bundles_def handler_entry_def checkout_def join_def
      new_App_def)

lemma console_log_frame:
  "handler_entry (console_log a p) = handler_entry p"
  "handler_found (console_log a p) = handler_found p"
  "handler_bundles (console_log a p) = handler_bundles p"
  "after_bundling sid (console_log a p) = console_log a (after_bundling sid p)"
  "cli_context (console_log a p) = cli_context p"
  by (simp_all add: console_log_def handler_entry_def handler_found_def handler_bundles_def
      after_bundling_def)

lemma entry_point_ready_ApiStack:
  assumes "cli_context q = cli_context p"
  shows "ApiStack_ready (fst (new_App p)) ''ApiStack''
           (Some \<lparr>env = Some \<lparr>account = a, region = r\<rparr>\<rparr>) q
         = entry_point_ready a r q"
  using assms ApiStack_id_accepted [of p]
  by (simp add: ApiStack_ready_def entry_point_ready_def props_account_def props_region_def
      new_App_def)

lemma cdk_demo_ApiStack:
  "cdk_demo p =
     (case ApiStack (fst (new_App p)) ''ApiStack''
             (Some \<lparr>env = Some \<lparr>account = env_vars p ''CDK_DEFAULT_ACCOUNT'',
                                 region = env_vars p ''AWS_REGION''\<rparr>\<rparr>)
             (console_log
                [LogString ''{ account: process.env.CDK_DEFAULT_ACCOUNT, region: process.env.AWS_REGION }'',
                 LogObject [(''account'', env_vars p ''CDK_DEFAULT_ACCOUNT''),
                            (''region'', env_vars p ''AWS_REGION'')]] (snd (new_App p))) of
        (Inl e, q) \<Rightarrow> (Inl e, q)
      | (Inr (st, app1), q) \<Rightarrow> (Inr app1, q))"
  by (simp add: cdk_demo_def and_then_def returns_def Let_def console_log_def new_App_def
      split: prod.split sum.split)

lemma part_000_ApiStack:
  "part_000 p =
     (case ApiStack (fst (new_App p)) ''ApiStack''
             (Some \<lparr>env = Some \<lparr>account = Some ''339713054130'',
                                 region = Some ''ap-south-1''\<rparr>\<rparr>) (snd (new_App p)) of
        (Inl e, q) \<Rightarrow> (Inl e, q)
      | (Inr (st, app1), q) \<Rightarrow> (Inr app1, q))"
  by (simp add: part_000_def and_then_def returns_def Let_def new_App_def
      split: prod.split sum.split)

lemma entry_point_effect:
  "snd (case ApiStack scope sid props q of
          (Inl e, q1) \<Rightarrow> (Inl e, q1)
        | (Inr (st, app1), q1) \<Rightarrow> (Inr app1, q1))
   = snd (ApiStack scope sid props q)"
  by (simp split: prod.split sum.split)

text \<open>The stack an entry point builds when it succeeds, and the process afterwards.\<close>

lemma entry_point_built:
  assumes "entry_point_ready a r q" and "cli_context q = cli_context p"
  shows "(case ApiStack (fst (new_App p)) ''ApiStack''
             (Some \<lparr>env = Some \<lparr>account = a, region = r\<rparr>\<rparr>) q of
            (Inl e, q1) \<Rightarrow> (Inl e, q1)
          | (Inr (st, app1), q1) \<Rightarrow> (Inr app1, q1)) =
     (Inr \<lparr>app_context = cli_context p,
           stacks =
             [\<lparr>stackId = ''ApiStack'',
               stack_account = a,
               stack_region = r,
               stack_context = cli_context p,
               nodes =
                 [([''HelloFunction''],
                     NodejsFunction \<lparr>entry = handler_entry q, runtime = NODEJS_20_X, memorySize = 256\<rparr>),
                  ([''ServiceApi''],
                     RestApi \<lparr>restApiName = ''Lambda Api'',
                              defaultCorsPreflightOptions =
                                Some \<lparr>allowOrigins = ALL_ORIGINS, allowMethods = ALL_METHODS\<rparr>\<rparr>),
                  ([''ServiceApi'', ''Endpoint''],
                     CfnOutput \<lparr>output_value = RestApiUrl [''ServiceApi''], description = None\<rparr>),
                  ([''ServiceApi'', ''Default''], Resource),
                  ([''ServiceApi'', ''Default'', ''OPTIONS''],
                     Method ''OPTIONS''
                       (MockIntegration \<lparr>allowOrigins = ALL_ORIGINS, allowMethods = ALL_METHODS\<rparr>)),
                  ([''ServiceApi'', ''Default'', ''GET''],
                     Method ''GET'' (LambdaIntegration [''HelloFunction''])),
                  ([''ApiUrl''],
                     CfnOutput \<lparr>output_value = RestApiUrl [''ServiceApi''],
                                description = Some ''Base URL of the REST API''\<rparr>)]\<rparr>]\<rparr>,
      after_bundling ''ApiStack'' q)"
proof -
  from assms have "ApiStack_ready (fst (new_App p)) ''ApiStack''
                     (Some \<lparr>env = Some \<lparr>account = a, region = r\<rparr>\<rparr>) q"
    by (simp add: entry_point_ready_ApiStack)
  from ApiStack_built [OF this] show ?thesis
    by (simp add: Let_def new_App_def props_account_def props_region_def sanitizeId_def)
qed

lemma entry_point_not_ready:
  assumes "\<not> entry_point_ready a r q" and "cli_context q = cli_context p"
  shows "isl (fst (case ApiStack (fst (new_App p)) ''ApiStack''
             (Some \<lparr>env = Some \<lparr>account = a, region = r\<rparr>\<rparr>) q of
            (Inl e, q1) \<Rightarrow> (Inl e, q1)
          | (Inr (st, app1), q1) \<Rightarrow> (Inr app1, q1)))"
proof -
  from assms have "\<not> ApiStack_ready (fst (new_App p)) ''ApiStack''
                     (Some \<lparr>env = Some \<lparr>account = a, region = r\<rparr>\<rparr>) q"
    by (simp add: entry_point_ready_ApiStack)
  then have "isl (fst (ApiStack (fst (new_App p)) ''ApiStack''
                     (Some \<lparr>env = Some \<lparr>account = a, region = r\<rparr>\<rparr>) q))"
    by (rule ApiStack_fails_unless_ready)
  then show ?thesis by (auto split: prod.split sum.split)
qed

lemma checkout_ready:
  "ApiStack_ready (fst (new_App checkout)) ''ApiStack'' None checkout"
  using ApiStack_id_accepted [of checkout] checkout_handler
  by (simp add: ApiStack_ready_def props_account_def props_region_def unbound_accepted)

section \<open>The resource-definition unit\<close>

text \<open>
  C3. Where the constructor of the stack succeeds (its id is accepted in the app, the
  handler is found and bundles, and the binding of the props is accepted) it declares
  (a) exactly one function, with the memory size 256 and the runtime Node.js 20,
  (b) exactly one REST API, whose CORS preflight options allow all origins and all methods,
  (c) the method GET on the root of that API, integrated with that function, and
  (d) the output ApiUrl, whose value is the URL of that API;
  the four are declared in this order. The only other output of the stack is the one
  the API declares for itself, with the same value.
\<close>

theorem C3_declares_function_api_route_output:
  assumes "ApiStack_ready scope sid props p"
  shows "\<exists>this app1 p1. ApiStack scope sid props p = (Inr (this, app1), p1)
     \<and> functions_of this =
         [([''HelloFunction''],
           \<lparr>entry = join (cwd p) ''src/handlers/hello-world/index.ts'',
            runtime = NODEJS_20_X, memorySize = 256\<rparr>)]
     \<and> apis_of this =
         [([''ServiceApi''],
           \<lparr>restApiName = ''Lambda Api'',
            defaultCorsPreflightOptions =
              Some \<lparr>allowOrigins = [''*''],
                    allowMethods = [''OPTIONS'', ''GET'', ''PUT'', ''POST'', ''DELETE'', ''PATCH'', ''HEAD'']\<rparr>\<rparr>)]
     \<and> (''GET'', LambdaIntegration [''HelloFunction'']) \<in> set (methods_of (root [''ServiceApi'']) this)
     \<and> outputs_of this =
         [([''ServiceApi'', ''Endpoint''],
           \<lparr>output_value = url [''ServiceApi''], description = None\<rparr>),
          ([''ApiUrl''],
           \<lparr>output_value = url [''ServiceApi''], description = Some ''Base URL of the REST API''\<rparr>)]
     \<and> filter (\<lambda>pth. pth \<in> {[''HelloFunction''], [''ServiceApi''],
                              root [''ServiceApi''] @ [''GET''], [''ApiUrl'']})
          (map fst (nodes this))
        = [[''HelloFunction''], [''ServiceApi''], root [''ServiceApi''] @ [''GET''], [''ApiUrl'']]"
proof -
  from ApiStack_built [OF assms] obtain this where
    built: "ApiStack scope sid props p =
              (Inr (this, scope\<lparr>stacks := stacks scope @ [this]\<rparr>), after_bundling sid p)"
    and ns: "nodes this =
       [([''HelloFunction''],
           NodejsFunction \<lparr>entry = handler_entry p, runtime = NODEJS_20_X, memorySize = 256\<rparr>),
        ([''ServiceApi''],
           RestApi \<lparr>restApiName = ''Lambda Api'',
                    defaultCorsPreflightOptions =
                      Some \<lparr>allowOrigins = ALL_ORIGINS, allowMethods = ALL_METHODS\<rparr>\<rparr>),
        ([''ServiceApi'', ''Endpoint''],
           CfnOutput \<lparr>output_value = RestApiUrl [''ServiceApi''], description = None\<rparr>),
        ([''ServiceApi'', ''Default''], Resource),
        ([''ServiceApi'', ''Default'', ''OPTIONS''],
           Method ''OPTIONS''
             (MockIntegration \<lparr>allowOrigins = ALL_ORIGINS, allowMethods = ALL_METHODS\<rparr>)),
        ([''ServiceApi'', ''Default'', ''GET''],
           Method ''GET'' (LambdaIntegration [''HelloFunction''])),
        ([''ApiUrl''],
           CfnOutput \<lparr>output_value = RestApiUrl [''ServiceApi''],
                      description = Some ''Base URL of the REST API''\<rparr>)]"
    by (simp add: Let_def)
  have f: "functions_of this =
         [([''HelloFunction''],
           \<lparr>entry = join (cwd p) ''src/handlers/hello-world/index.ts'',
            runtime = NODEJS_20_X, memorySize = 256\<rparr>)]"
    by (simp add: functions_of_def ns handler_entry_def)
  have a: "apis_of this =
         [([''ServiceApi''],
           \<lparr>restApiName = ''Lambda Api'',
            defaultCorsPreflightOptions =
              Some \<lparr>allowOrigins = [''*''],
                    allowMethods = [''OPTIONS'', ''GET'', ''PUT'', ''POST'', ''DELETE'', ''PATCH'', ''HEAD'']\<rparr>\<rparr>)]"
    by (simp add: apis_of_def ns ALL_ORIGINS_def ALL_METHODS_def)
  have m: "(''GET'', LambdaIntegration [''HelloFunction'']) \<in> set (methods_of (root [''ServiceApi'']) this)"
    by (simp add: methods_of_def ns root_def)
  have out: "outputs_of this =
         [([''ServiceApi'', ''Endpoint''],
           \<lparr>output_value = url [''ServiceApi''], description = None\<rparr>),
          ([''ApiUrl''],
           \<lparr>output_value = url [''ServiceApi''], description = Some ''Base URL of the REST API''\<rparr>)]"
    by (simp add: outputs_of_def ns url_def)
  have ord: "filter (\<lambda>pth. pth \<in> {[''HelloFunction''], [''ServiceApi''],
                              root [''ServiceApi''] @ [''GET''], [''ApiUrl'']})
          (map fst (nodes this))
        = [[''HelloFunction''], [''ServiceApi''], root [''ServiceApi''] @ [''GET''], [''ApiUrl'']]"
    by (simp add: ns root_def)
  from built f a m out ord show ?thesis by blast
qed

theorem C3_witness:
  "\<exists>this app1 p1. ApiStack (fst (new_App checkout)) ''ApiStack'' None checkout = (Inr (this, app1), p1)
     \<and> map fst (functions_of this) = [[''HelloFunction'']]
     \<and> map (memorySize \<circ> snd) (functions_of this) = [256]
     \<and> map (runtime \<circ> snd) (functions_of this) = [NODEJS_20_X]
     \<and> map fst (apis_of this) = [[''ServiceApi'']]
     \<and> map (output_value \<circ> snd) (outputs_of this)
         = [RestApiUrl [''ServiceApi''], RestApiUrl [''ServiceApi'']]"
  using C3_declares_function_api_route_output [OF checkout_ready]
  by (auto simp: url_def)

text \<open>
  C4, as amended. The declaration binds two methods to the root of the API: OPTIONS, the
  CORS preflight that \<^verbatim>\<open>defaultCorsPreflightOptions\<close> asks for, integrated with a mock
  (the front door answers it itself), and GET. GET is the only method of the root that
  is integrated with the function: a request for the root is routed to the function when
  its method is GET, to the mock when it is OPTIONS, and has no integration otherwise.
  This holds wherever the constructor of the stack succeeds.
\<close>

theorem C4_root_methods:
  assumes "ApiStack_ready scope sid props p"
  shows "\<exists>this app1 p1. ApiStack scope sid props p = (Inr (this, app1), p1)
     \<and> methods_of (root [''ServiceApi'']) this =
         [(''OPTIONS'', MockIntegration \<lparr>allowOrigins = ALL_ORIGINS, allowMethods = ALL_METHODS\<rparr>),
          (''GET'', LambdaIntegration [''HelloFunction''])]
     \<and> function_methods (root [''ServiceApi'']) this = [(''GET'', [''HelloFunction''])]
     \<and> integration_for this (root [''ServiceApi'']) m =
         (if m = ''GET'' then Some (LambdaIntegration [''HelloFunction''])
          else if m = ''OPTIONS''
          then Some (MockIntegration \<lparr>allowOrigins = ALL_ORIGINS, allowMethods = ALL_METHODS\<rparr>)
          else None)"
proof -
  from ApiStack_built [OF assms] obtain this where
    built: "ApiStack scope sid props p =
              (Inr (this, scope\<lparr>stacks := stacks scope @ [this]\<rparr>), after_bundling sid p)"
    and ns: "nodes this =
       [([''HelloFunction''],
           NodejsFunction \<lparr>entry = handler_entry p, runtime = NODEJS_20_X, memorySize = 256\<rparr>),
        ([''ServiceApi''],
           RestApi \<lparr>restApiName = ''Lambda Api'',
                    defaultCorsPreflightOptions =
                      Some \<lparr>allowOrigins = ALL_ORIGINS, allowMethods = ALL_METHODS\<rparr>\<rparr>),
        ([''ServiceApi'', ''Endpoint''],
           CfnOutput \<lparr>output_value = RestApiUrl [''ServiceApi''], description = None\<rparr>),
        ([''ServiceApi'', ''Default''], Resource),
        ([''ServiceApi'', ''Default'', ''OPTIONS''],
           Method ''OPTIONS''
             (MockIntegration \<lparr>allowOrigins = ALL_ORIGINS, allowMethods = ALL_METHODS\<rparr>)),
        ([''ServiceApi'', ''Default'', ''GET''],
           Method ''GET'' (LambdaIntegration [''HelloFunction''])),
        ([''ApiUrl''],
           CfnOutput \<lparr>output_value = RestApiUrl [''ServiceApi''],
                      description = Some ''Base URL of the REST API''\<rparr>)]"
    by (simp add: Let_def)
  have ms: "methods_of (root [''ServiceApi'']) this =
         [(''OPTIONS'', MockIntegration \<lparr>allowOrigins = ALL_ORIGINS, allowMethods = ALL_METHODS\<rparr>),
          (''GET'', LambdaIntegration [''HelloFunction''])]"
    by (simp add: methods_of_def ns root_def)
  have fm: "function_methods (root [''ServiceApi'']) this = [(''GET'', [''HelloFunction''])]"
    by (simp add: function_methods_def ms)
  have "integration_for this (root [''ServiceApi'']) m =
         (if m = ''GET'' then Some (LambdaIntegration [''HelloFunction''])
          else if m = ''OPTIONS''
          then Some (MockIntegration \<lparr>allowOrigins = ALL_ORIGINS, allowMethods = ALL_METHODS\<rparr>)
          else None)"
    by (simp add: integration_for_def ms)
  with built ms fm show ?thesis by blast
qed

theorem C4_witness:
  "\<exists>this app1 p1. ApiStack (fst (new_App checkout)) ''ApiStack'' None checkout = (Inr (this, app1), p1)
     \<and> map fst (methods_of (root [''ServiceApi'']) this) = [''OPTIONS'', ''GET'']
     \<and> map fst (function_methods (root [''ServiceApi'']) this) = [''GET'']
     \<and> integration_for this (root [''ServiceApi'']) ''POST'' = None"
  using C4_root_methods [OF checkout_ready, of "''POST''"]
  by auto

text \<open>
  C4 as stated fails: in the stack the entry point builds, GET is not the only method
  bound to the root of the API; OPTIONS is bound to it as well.
\<close>

theorem C4_counterexample:
  "\<not> isl (fst (ApiStack (fst (new_App checkout)) ''ApiStack'' None checkout))
   \<and> map fst (methods_of (root [''ServiceApi''])
        (fst (projr (fst (ApiStack (fst (new_App checkout)) ''ApiStack'' None checkout)))))
     = [''OPTIONS'', ''GET'']"
  by (simp add: ApiStack_built [OF checkout_ready] Let_def methods_of_def root_def)

text \<open>
  C10, as amended. The constructs the stack declares do not depend on the props with
  which it is constructed: any two props with which the constructor succeeds give the
  same constructs (one function with 256 MB on Node.js 20, one REST API with the
  permissive CORS options, GET as the one method of the root bound to the function, and
  two outputs with the URL of the API, the API's own and ApiUrl) and the same effect on
  the process. Whether the constructor succeeds does depend on them: an account and a
  region that are both given must make a valid name of the asset bucket.
\<close>

theorem C10_constructs_independent_of_env:
  assumes "ApiStack_ready scope sid props1 p" and "ApiStack_ready scope sid props2 p"
  shows "\<exists>s1 a1 s2 a2 p1.
       ApiStack scope sid props1 p = (Inr (s1, a1), p1)
     \<and> ApiStack scope sid props2 p = (Inr (s2, a2), p1)
     \<and> nodes s1 = nodes s2
     \<and> map (\<lambda>(pth, f). (pth, memorySize f, runtime f)) (functions_of s1)
         = [([''HelloFunction''], 256, NODEJS_20_X)]
     \<and> map (\<lambda>(pth, a). (pth, defaultCorsPreflightOptions a)) (apis_of s1)
         = [([''ServiceApi''], Some \<lparr>allowOrigins = ALL_ORIGINS, allowMethods = ALL_METHODS\<rparr>)]
     \<and> function_methods (root [''ServiceApi'']) s1 = [(''GET'', [''HelloFunction''])]
     \<and> map (\<lambda>(pth, out). (pth, output_value out)) (outputs_of s1)
         = [([''ServiceApi'', ''Endpoint''], url [''ServiceApi'']),
            ([''ApiUrl''], url [''ServiceApi''])]"
  by (simp add: ApiStack_built [OF assms(1)] ApiStack_built [OF assms(2)] Let_def
      functions_of_def apis_of_def outputs_of_def methods_of_def function_methods_def
      root_def url_def)

theorem C10_witness:
  "\<exists>s1 a1 s2 a2 p1.
       ApiStack (fst (new_App checkout)) ''ApiStack'' None checkout = (Inr (s1, a1), p1)
     \<and> ApiStack (fst (new_App checkout)) ''ApiStack''
          (Some \<lparr>env = Some \<lparr>account = Some ''339713054130'', region = Some ''ap-south-1''\<rparr>\<rparr>)
          checkout = (Inr (s2, a2), p1)
     \<and> nodes s1 = nodes s2
     \<and> map fst (outputs_of s1) = [[''ServiceApi'', ''Endpoint''], [''ApiUrl'']]"
proof -
  have r2: "ApiStack_ready (fst (new_App checkout)) ''ApiStack''
              (Some \<lparr>env = Some \<lparr>account = Some ''339713054130'', region = Some ''ap-south-1''\<rparr>\<rparr>)
              checkout"
    using ApiStack_id_accepted [of checkout] checkout_handler constants_accepted_by_default
    by (simp add: ApiStack_ready_def props_account_def props_region_def new_App_def checkout_def)
  from C10_constructs_independent_of_env [OF checkout_ready r2]
  show ?thesis by (auto simp: outputs_of_def split: prod.splits)
qed

text \<open>
  C10 as stated fails: in the same app and process the constructor succeeds with no props
  and throws with the props whose account and region are both the empty string, so the
  declared resources are not the same for every value of the props.
\<close>

theorem C10_counterexample:
  "\<not> isl (fst (ApiStack (fst (new_App checkout)) ''ApiStack'' None checkout))
   \<and> fst (ApiStack (fst (new_App checkout)) ''ApiStack''
            (Some \<lparr>env = Some \<lparr>account = Some [], region = Some []\<rparr>\<rparr>) checkout)
     = Inl (InvalidBucketNameValue ''cdk-hnb659fds-assets--'')"
proof -
  have acc: "stack_id_accepted (fst (new_App checkout)) ''ApiStack''" by (rule ApiStack_id_accepted)
  have b: "asset_bucket (app_context (fst (new_App checkout)))
             (props_account (Some \<lparr>env = Some \<lparr>account = Some [], region = Some []\<rparr>\<rparr>))
             (props_region (Some \<lparr>env = Some \<lparr>account = Some [], region = Some []\<rparr>\<rparr>))
           = Some ''cdk-hnb659fds-assets--''"
    using empty_strings_refused
    by (simp add: props_account_def props_region_def new_App_def checkout_def)
  from empty_strings_refused have nv: "\<not> valid_bucket_name ''cdk-hnb659fds-assets--''" by simp
  from checkout_handler have h: "handler_found checkout" "handler_bundles checkout" by simp_all
  show ?thesis
    by (simp add: ApiStack_built [OF checkout_ready] Let_def
        ApiStack_bucket_refused [OF acc h b nv])
qed

section \<open>The two entry points\<close>

lemma cdk_demo_succeeds_iff:
  "\<not> isl (fst (cdk_demo p))
   \<longleftrightarrow> entry_point_ready (env_vars p ''CDK_DEFAULT_ACCOUNT'') (env_vars p ''AWS_REGION'')
         (snd (new_App p))"
proof -
  let ?line = "[LogString ''{ account: process.env.CDK_DEFAULT_ACCOUNT, region: process.env.AWS_REGION }'',
                LogObject [(''account'', env_vars p ''CDK_DEFAULT_ACCOUNT''),
                           (''region'', env_vars p ''AWS_REGION'')]]"
  let ?q = "console_log ?line (snd (new_App p))"
  have c: "cli_context ?q = cli_context p" by (simp add: console_log_frame new_App_frame)
  have r: "entry_point_ready a r ?q = entry_point_ready a r (snd (new_App p))" for a r
    by (simp add: entry_point_ready_def console_log_frame)
  show ?thesis
  proof (cases "entry_point_ready (env_vars p ''CDK_DEFAULT_ACCOUNT'') (env_vars p ''AWS_REGION'')
                  (snd (new_App p))")
    case True
    then have "entry_point_ready (env_vars p ''CDK_DEFAULT_ACCOUNT'') (env_vars p ''AWS_REGION'') ?q"
      by (simp add: r)
    from entry_point_built [OF this c] True show ?thesis
      by (simp add: cdk_demo_ApiStack)
  next
    case False
    then have "\<not> entry_point_ready (env_vars p ''CDK_DEFAULT_ACCOUNT'') (env_vars p ''AWS_REGION'') ?q"
      by (simp add: r)
    from entry_point_not_ready [OF this c] False show ?thesis
      by (simp add: cdk_demo_ApiStack)
  qed
qed

lemma part_000_succeeds_iff:
  "\<not> isl (fst (part_000 p))
   \<longleftrightarrow> entry_point_ready (Some ''339713054130'') (Some ''ap-south-1'') (snd (new_App p))"
proof (cases "entry_point_ready (Some ''339713054130'') (Some ''ap-south-1'') (snd (new_App p))")
  case True
  from entry_point_built [OF this new_App_frame(2)] True show ?thesis
    by (simp add: part_000_ApiStack)
next
  case False
  from entry_point_not_ready [OF this new_App_frame(2)] False show ?thesis
    by (simp add: part_000_ApiStack)
qed

lemma cdk_demo_built:
  assumes "entry_point_ready (env_vars p ''CDK_DEFAULT_ACCOUNT'') (env_vars p ''AWS_REGION'')
             (snd (new_App p))"
  shows "\<exists>st. cdk_demo p =
             (Inr \<lparr>app_context = cli_context p, stacks = [st]\<rparr>,
              console_log
                [LogString ''{ account: process.env.CDK_DEFAULT_ACCOUNT, region: process.env.AWS_REGION }'',
                 LogObject [(''account'', env_vars p ''CDK_DEFAULT_ACCOUNT''),
                            (''region'', env_vars p ''AWS_REGION'')]]
                (after_bundling ''ApiStack'' (snd (new_App p))))
           \<and> st = \<lparr>stackId = ''ApiStack'',
                    stack_account = env_vars p ''CDK_DEFAULT_ACCOUNT'',
                    stack_region = env_vars p ''AWS_REGION'',
                    stack_context = cli_context p,
                    nodes =
                 [([''HelloFunction''],
                     NodejsFunction \<lparr>entry = handler_entry p, runtime = NODEJS_20_X, memorySize = 256\<rparr>),
                  ([''ServiceApi''],
                     RestApi \<lparr>restApiName = ''Lambda Api'',
                              defaultCorsPreflightOptions =
                                Some \<lparr>allowOrigins = ALL_ORIGINS, allowMethods = ALL_METHODS\<rparr>\<rparr>),
                  ([''ServiceApi'', ''Endpoint''],
                     CfnOutput \<lparr>output_value = RestApiUrl [''ServiceApi''], description = None\<rparr>),
                  ([''ServiceApi'', ''Default''], Resource),
                  ([''ServiceApi'', ''Default'', ''OPTIONS''],
                     Method ''OPTIONS''
                       (MockIntegration \<lparr>allowOrigins = ALL_ORIGINS, allowMethods = ALL_METHODS\<rparr>)),
                  ([''ServiceApi'', ''Default'', ''GET''],
                     Method ''GET'' (LambdaIntegration [''HelloFunction''])),
                  ([''ApiUrl''],
                     CfnOutput \<lparr>output_value = RestApiUrl [''ServiceApi''],
                                description = Some ''Base URL of the REST API''\<rparr>)]\<rparr>"
proof -
  let ?line = "[LogString ''{ account: process.env.CDK_DEFAULT_ACCOUNT, region: process.env.AWS_REGION }'',
                LogObject [(''account'', env_vars p ''CDK_DEFAULT_ACCOUNT''),
                           (''region'', env_vars p ''AWS_REGION'')]]"
  let ?q = "console_log ?line (snd (new_App p))"
  have c: "cli_context ?q = cli_context p" by (simp add: console_log_frame new_App_frame)
  from assms
  have "entry_point_ready (env_vars p ''CDK_DEFAULT_ACCOUNT'') (env_vars p ''AWS_REGION'') ?q"
    by (simp add: entry_point_ready_def console_log_frame)
  from entry_point_built [OF this c] show ?thesis
    by (simp add: cdk_demo_ApiStack console_log_frame new_App_frame)
qed

lemma part_000_built:
  assumes "entry_point_ready (Some ''339713054130'') (Some ''ap-south-1'') (snd (new_App p))"
  shows "\<exists>st. part_000 p =
             (Inr \<lparr>app_context = cli_context p, stacks = [st]\<rparr>,
              after_bundling ''ApiStack'' (snd (new_App p)))
           \<and> st = \<lparr>stackId = ''ApiStack'',
                    stack_account = Some ''339713054130'',
                    stack_region = Some ''ap-south-1'',
                    stack_context = cli_context p,
                    nodes =
                 [([''HelloFunction''],
                     NodejsFunction \<lparr>entry = handler_entry p, runtime = NODEJS_20_X, memorySize = 256\<rparr>),
                  ([''ServiceApi''],
                     RestApi \<lparr>restApiName = ''Lambda Api'',
                              defaultCorsPreflightOptions =
                                Some \<lparr>allowOrigins = ALL_ORIGINS, allowMethods = ALL_METHODS\<rparr>\<rparr>),
                  ([''ServiceApi'', ''Endpoint''],
                     CfnOutput \<lparr>output_value = RestApiUrl [''ServiceApi''], description = None\<rparr>),
                  ([''ServiceApi'', ''Default''], Resource),
                  ([''ServiceApi'', ''Default'', ''OPTIONS''],
                     Method ''OPTIONS''
                       (MockIntegration \<lparr>allowOrigins = ALL_ORIGINS, allowMethods = ALL_METHODS\<rparr>)),
                  ([''ServiceApi'', ''Default'', ''GET''],
                     Method ''GET'' (LambdaIntegration [''HelloFunction''])),
                  ([''ApiUrl''],
                     CfnOutput \<lparr>output_value = RestApiUrl [''ServiceApi''],
                                description = Some ''Base URL of the REST API''\<rparr>)]\<rparr>"
  using entry_point_built [OF assms new_App_frame(2)]
  by (simp add: part_000_ApiStack new_App_frame)

text \<open>The effect of an entry point on the process, whether it succeeds or throws.\<close>

lemma part_000_effect:
  "snd (part_000 p) =
     (if handler_found (snd (new_App p)) then after_bundling ''ApiStack'' (snd (new_App p))
      else snd (new_App p))"
  by (simp add: part_000_ApiStack entry_point_effect ApiStack_effect ApiStack_id_accepted)

lemma cdk_demo_effect:
  "snd (cdk_demo p) =
     console_log
       [LogString ''{ account: process.env.CDK_DEFAULT_ACCOUNT, region: process.env.AWS_REGION }'',
        LogObject [(''account'', env_vars p ''CDK_DEFAULT_ACCOUNT''),
                   (''region'', env_vars p ''AWS_REGION'')]] (snd (part_000 p))"
  by (simp add: part_000_effect cdk_demo_ApiStack entry_point_effect ApiStack_effect
      ApiStack_id_accepted console_log_frame)

lemma checkout_entry_points_ready:
  "entry_point_ready None None (snd (new_App checkout))"
  "entry_point_ready (Some ''339713054130'') (Some ''ap-south-1'') (snd (new_App checkout))"
  using checkout_handler constants_accepted_by_default
  by (simp_all add: entry_point_ready_def unbound_accepted new_App_frame)
     (simp add: checkout_def)

text \<open>
  C9, as amended. Where both entry points succeed they build the same app but for the
  binding of the stack: each builds one stack with the id ApiStack, and the stack of
  \<^verbatim>\<open>bin/cdk-demo.ts\<close> is the stack of the other variant with the account and the region
  replaced by the values of \<^verbatim>\<open>CDK_DEFAULT_ACCOUNT\<close> and \<^verbatim>\<open>AWS_REGION\<close>, so the declared
  constructs are the same; the processes afterwards differ by the one line that
  \<^verbatim>\<open>bin/cdk-demo.ts\<close> prints. They do not succeed in the same processes: each needs its own
  binding to be accepted.
\<close>

theorem C9_entry_points_agree:
  assumes "entry_point_ready (env_vars p ''CDK_DEFAULT_ACCOUNT'') (env_vars p ''AWS_REGION'')
             (snd (new_App p))"
    and "entry_point_ready (Some ''339713054130'') (Some ''ap-south-1'') (snd (new_App p))"
  shows "\<exists>st. fst (part_000 p) = Inr \<lparr>app_context = cli_context p, stacks = [st]\<rparr>
      \<and> fst (cdk_demo p) =
          Inr \<lparr>app_context = cli_context p,
               stacks = [st\<lparr>stack_account := env_vars p ''CDK_DEFAULT_ACCOUNT'',
                            stack_region := env_vars p ''AWS_REGION''\<rparr>]\<rparr>
      \<and> stackId st = ''ApiStack''
      \<and> stack_account st = Some ''339713054130''
      \<and> stack_region st = Some ''ap-south-1''
      \<and> snd (cdk_demo p) =
          console_log
            [LogString ''{ account: process.env.CDK_DEFAULT_ACCOUNT, region: process.env.AWS_REGION }'',
             LogObject [(''account'', env_vars p ''CDK_DEFAULT_ACCOUNT''),
                        (''region'', env_vars p ''AWS_REGION'')]] (snd (part_000 p))"
proof -
  from cdk_demo_built [OF assms(1)] obtain st1 where
    one: "fst (cdk_demo p) = Inr \<lparr>app_context = cli_context p, stacks = [st1]\<rparr>"
    by auto
  from cdk_demo_built [OF assms(1)] part_000_built [OF assms(2)] cdk_demo_effect [of p]
  show ?thesis by auto
qed

theorem C9_witness:
  "\<exists>st. fst (part_000 checkout) = Inr \<lparr>app_context = Map.empty, stacks = [st]\<rparr>
      \<and> fst (cdk_demo checkout) =
          Inr \<lparr>app_context = Map.empty, stacks = [st\<lparr>stack_account := None, stack_region := None\<rparr>]\<rparr>
      \<and> stackId st = ''ApiStack''"
proof -
  have none: "env_vars checkout ''CDK_DEFAULT_ACCOUNT'' = None"
    "env_vars checkout ''AWS_REGION'' = None" "cli_context checkout = Map.empty"
    by (simp_all add: checkout_def)
  have r1: "entry_point_ready (env_vars checkout ''CDK_DEFAULT_ACCOUNT'')
              (env_vars checkout ''AWS_REGION'') (snd (new_App checkout))"
    using checkout_entry_points_ready(1) by (simp only: none)
  from C9_entry_points_agree [OF r1 checkout_entry_points_ready(2)] show ?thesis
    by (simp only: none) blast
qed

text \<open>
  C9 as stated fails: in a checkout where \<^verbatim>\<open>CDK_DEFAULT_ACCOUNT\<close> and \<^verbatim>\<open>AWS_REGION\<close> are both
  set to the empty string, \<^verbatim>\<open>bin/cdk-demo.ts\<close> throws on the name of the asset bucket and
  constructs no stack, while the variant with the constants constructs its stack.
\<close>

theorem C9_counterexample:
  "fst (cdk_demo (checkout\<lparr>env_vars := [''CDK_DEFAULT_ACCOUNT'' \<mapsto> [], ''AWS_REGION'' \<mapsto> []]\<rparr>))
     = Inl (InvalidBucketNameValue ''cdk-hnb659fds-assets--'')
   \<and> \<not> isl (fst (part_000
        (checkout\<lparr>env_vars := [''CDK_DEFAULT_ACCOUNT'' \<mapsto> [], ''AWS_REGION'' \<mapsto> []]\<rparr>)))"
proof -
  let ?q = "checkout\<lparr>env_vars := [''CDK_DEFAULT_ACCOUNT'' \<mapsto> [], ''AWS_REGION'' \<mapsto> []]\<rparr>"
  let ?line = "[LogString ''{ account: process.env.CDK_DEFAULT_ACCOUNT, region: process.env.AWS_REGION }'',
                LogObject [(''account'', env_vars ?q ''CDK_DEFAULT_ACCOUNT''),
                           (''region'', env_vars ?q ''AWS_REGION'')]]"
  have h: "handler_found (snd (new_App ?q))" "handler_bundles (snd (new_App ?q))"
    by (simp_all add: handler_found_def handler_bundles_def handler_entry_def checkout_def join_def
        new_App_def)
  then have h1: "handler_found (console_log ?line (snd (new_App ?q)))"
    "handler_bundles (console_log ?line (snd (new_App ?q)))"
    by (simp_all add: console_log_frame)
  have acc: "stack_id_accepted (fst (new_App ?q)) ''ApiStack''" by (rule ApiStack_id_accepted)
  have b: "asset_bucket (app_context (fst (new_App ?q)))
             (props_account (Some \<lparr>env = Some \<lparr>account = env_vars ?q ''CDK_DEFAULT_ACCOUNT'',
                                               region = env_vars ?q ''AWS_REGION''\<rparr>\<rparr>))
             (props_region (Some \<lparr>env = Some \<lparr>account = env_vars ?q ''CDK_DEFAULT_ACCOUNT'',
                                              region = env_vars ?q ''AWS_REGION''\<rparr>\<rparr>))
           = Some ''cdk-hnb659fds-assets--''"
    using empty_strings_refused
    by (simp add: props_account_def props_region_def new_App_def checkout_def)
  from empty_strings_refused have nv: "\<not> valid_bucket_name ''cdk-hnb659fds-assets--''" by simp
  note refused = ApiStack_bucket_refused [OF acc h1 b nv]
  have one: "fst (cdk_demo ?q) = Inl (InvalidBucketNameValue ''cdk-hnb659fds-assets--'')"
    by (subst cdk_demo_ApiStack, subst refused, simp)
  have r2: "entry_point_ready (Some ''339713054130'') (Some ''ap-south-1'') (snd (new_App ?q))"
    using h constants_accepted_by_default
    by (simp add: entry_point_ready_def new_App_frame) (simp add: checkout_def)
  from part_000_succeeds_iff [of ?q] r2 have two: "\<not> isl (fst (part_000 ?q))" by blast
  from one two show ?thesis by simp
qed

text \<open>
  C8, as amended. An entry point creates no cloud resource, changes neither the
  environment nor the working directory, and retries nothing, but it has effects beyond
  the construction of objects. Creating the app creates its output directory.
  \<^verbatim>\<open>bin/cdk-demo.ts\<close> writes one line to standard output, the label and the account and region
  read from the environment. And in both variants, once the handler is found and
  unless bundling is skipped, constructing the function runs the bundler, exactly once
  whether the construction then succeeds or throws: the library announces the asset on
  standard error, and the bundler prints there and writes the bundle to disk.
\<close>

theorem C8_effects_of_the_entry_points:
  "snd (part_000 p) =
     (if handler_found (snd (new_App p)) \<and> \<not> skip_bundling p
      then p\<lparr>files := insert (app_outdir p) (files p) \<union> written (esbuild p (handler_entry p)),
             stderr := stderr p
               @ ''Bundling asset ApiStack/HelloFunction/Code/Stage...''
                 # printed (esbuild p (handler_entry p))\<rparr>
      else p\<lparr>files := insert (app_outdir p) (files p)\<rparr>)
   \<and> snd (cdk_demo p) =
       (snd (part_000 p))\<lparr>stdout := stdout p @
          [[LogString ''{ account: process.env.CDK_DEFAULT_ACCOUNT, region: process.env.AWS_REGION }'',
            LogObject [(''account'', env_vars p ''CDK_DEFAULT_ACCOUNT''),
                       (''region'', env_vars p ''AWS_REGION'')]]]\<rparr>
   \<and> cloud_resources (snd (part_000 p)) = cloud_resources p
   \<and> cloud_resources (snd (cdk_demo p)) = cloud_resources p
   \<and> env_vars (snd (cdk_demo p)) = env_vars p
   \<and> cwd (snd (cdk_demo p)) = cwd p"
proof -
  have two: "snd (part_000 p) =
     (if handler_found (snd (new_App p)) \<and> \<not> skip_bundling p
      then p\<lparr>files := insert (app_outdir p) (files p) \<union> written (esbuild p (handler_entry p)),
             stderr := stderr p
               @ ''Bundling asset ApiStack/HelloFunction/Code/Stage...''
                 # printed (esbuild p (handler_entry p))\<rparr>
      else p\<lparr>files := insert (app_outdir p) (files p)\<rparr>)"
    by (simp add: part_000_effect after_bundling_def new_App_frame sanitizeId_def)
       (simp add: new_App_def)
  show ?thesis
    by (simp only: cdk_demo_effect two) (simp add: console_log_def)
qed

theorem C8_witness:
  "stdout (snd (part_000 checkout)) = []
   \<and> length (stdout (snd (cdk_demo checkout))) = 1
   \<and> stderr (snd (cdk_demo checkout))
       = [''Bundling asset ApiStack/HelloFunction/Code/Stage...'', ''Done'']
   \<and> cloud_resources (snd (cdk_demo checkout)) = []"
  using C8_effects_of_the_entry_points [of checkout] checkout_handler
  by (simp add: checkout_def)

text \<open>
  C8 as stated fails: on a successful run \<^verbatim>\<open>bin/cdk-demo.ts\<close> has written a line to
  standard output, the bundler has been announced and has printed on standard error,
  and the output directory and the bundle have been written to disk.
\<close>

theorem C8_counterexample:
  "\<not> isl (fst (cdk_demo checkout))
   \<and> stdout checkout = []
   \<and> stdout (snd (cdk_demo checkout)) =
       [[LogString ''{ account: process.env.CDK_DEFAULT_ACCOUNT, region: process.env.AWS_REGION }'',
         LogObject [(''account'', None), (''region'', None)]]]
   \<and> stderr checkout = []
   \<and> stderr (snd (cdk_demo checkout))
       = [''Bundling asset ApiStack/HelloFunction/Code/Stage...'', ''Done'']
   \<and> ''/work/cdk-demo/cdk.out/asset/index.js'' \<notin> files checkout
   \<and> ''/work/cdk-demo/cdk.out/asset/index.js'' \<in> files (snd (cdk_demo checkout))"
proof -
  have none: "env_vars checkout ''CDK_DEFAULT_ACCOUNT'' = None"
    "env_vars checkout ''AWS_REGION'' = None"
    by (simp_all add: checkout_def)
  have r1: "entry_point_ready (env_vars checkout ''CDK_DEFAULT_ACCOUNT'')
              (env_vars checkout ''AWS_REGION'') (snd (new_App checkout))"
    using checkout_entry_points_ready(1) by (simp only: none)
  from cdk_demo_succeeds_iff [of checkout] r1 have ok: "\<not> isl (fst (cdk_demo checkout))"
    by blast
  from checkout_handler have f: "handler_found (snd (new_App checkout))" by simp
  have eff: "snd (cdk_demo checkout) =
     console_log
       [LogString ''{ account: process.env.CDK_DEFAULT_ACCOUNT, region: process.env.AWS_REGION }'',
        LogObject [(''account'', None), (''region'', None)]]
       (after_bundling ''ApiStack'' (snd (new_App checkout)))"
    by (simp add: cdk_demo_effect part_000_effect f none)
  show ?thesis
    by (simp add: ok eff)
       (simp add: after_bundling_def console_log_def new_App_def checkout_def sanitizeId_def
          handler_entry_def)
qed

section \<open>The entry points and the environment\<close>









section \<open>The compute handler: the timestamp\<close>

lemma digit_index: "i < 10 \<Longrightarrow> i \<in> {0, 1, 2, 3, 4, 5, 6, 7, 8, 9::nat}"
  by auto

lemma is_digit_digit_char: "is_digit (digit_char k)"
  unfolding is_digit_def digit_char_def by (rule nth_mem) simp

lemma digit_value_digit_char: "digit_value (digit_char k) = k mod 10"
proof -
  have "k mod 10 \<in> {0, 1, 2, 3, 4, 5, 6, 7, 8, 9::nat}"
    by (rule digit_index) simp
  then show ?thesis
    unfolding digit_value_def digit_char_def by (elim insertE emptyE) simp_all
qed

lemma length_digits: "length (digits w n) = w"
  by (induction w arbitrary: n) simp_all

lemma digits_all_digit: "list_all is_digit (digits w n)"
  by (induction w arbitrary: n) (simp_all add: is_digit_digit_char)

lemma is_number_digits: "is_number w (digits w n)"
  by (simp add: is_number_def length_digits digits_all_digit)

lemma number_snoc: "number (s @ [c]) = 10 * number s + digit_value c"
  by (simp add: number_def)

lemma number_digits: "number (digits w n) = n mod 10 ^ w"
proof (induction w arbitrary: n)
  case 0
  show ?case by (simp add: number_def)
next
  case (Suc w)
  have "number (digits (Suc w) n) = 10 * (n div 10 mod 10 ^ w) + n mod 10"
    by (simp add: number_snoc Suc.IH digit_value_digit_char)
  also have "\<dots> = n mod (10 * 10 ^ w)"
    by (simp add: mod_mult2_eq)
  finally show ?case by simp
qed

lemma year_of_day: "year_of y d = (y', d') \<Longrightarrow> d' < days_in_year y'"
proof (induction y d rule: year_of.induct)
  case (1 y d)
  show ?case
  proof (cases "d < days_in_year y")
    case True
    with "1.prems" show ?thesis by (simp add: year_of.simps [of y d])
  next
    case False
    with "1.prems" have "year_of (Suc y) (d - days_in_year y) = (y', d')"
      by (simp add: year_of.simps [of y d])
    with False show ?thesis by (rule "1.IH")
  qed
qed

lemma month_of_range:
  "d < sum_list ls \<Longrightarrow> list_all (\<lambda>l. l \<le> 31) ls \<Longrightarrow> month_of ls m d = (m', d')
   \<Longrightarrow> m \<le> m' \<and> m' < m + length ls \<and> d' < 31"
proof (induction ls arbitrary: m d)
  case Nil
  then show ?case by simp
next
  case (Cons l ls)
  show ?case
  proof (cases "d < l")
    case True
    with Cons.prems show ?thesis by auto
  next
    case False
    with Cons.prems have rec: "month_of ls (Suc m) (d - l) = (m', d')" by simp
    from False Cons.prems have "d - l < sum_list ls" by simp
    moreover from Cons.prems have "list_all (\<lambda>l. l \<le> 31) ls" by simp
    ultimately have "Suc m \<le> m' \<and> m' < Suc m + length ls \<and> d' < 31"
      using rec by (rule Cons.IH)
    then show ?thesis by simp
  qed
qed

lemma sum_month_lengths: "sum_list (month_lengths y) = days_in_year y"
  by (simp add: month_lengths_def days_in_year_def)

lemma month_lengths_le: "list_all (\<lambda>l. l \<le> 31) (month_lengths y)"
  by (simp add: month_lengths_def)

lemma is_number_2: "is_number 2 s \<Longrightarrow> \<exists>a b. s = [a, b]"
  by (auto simp: is_number_def length_Suc_conv numeral_2_eq_2)

lemma is_number_3: "is_number 3 s \<Longrightarrow> \<exists>a b c. s = [a, b, c]"
  by (auto simp: is_number_def length_Suc_conv numeral_3_eq_3)

lemma is_iso8601_tail:
  assumes r: "r = ''-'' @ mo @ ''-'' @ dy @ ''T'' @ hh @ '':'' @ mi @ '':'' @ ss @ ''.'' @ fr @ ''Z''"
    and "is_number 2 mo" "1 \<le> number mo" "number mo \<le> 12"
    and "is_number 2 dy" "1 \<le> number dy" "number dy \<le> 31"
    and "is_number 2 hh" "number hh \<le> 23"
    and "is_number 2 mi" "number mi \<le> 59"
    and "is_number 2 ss" "number ss \<le> 59"
    and "is_number 3 fr"
  shows "length r = 20
         \<and> take 1 r = ''-'' \<and> is_number 2 (take 2 (drop 1 r)) \<and> 1 \<le> number (take 2 (drop 1 r)) \<and> number (take 2 (drop 1 r)) \<le> 12
         \<and> take 1 (drop 3 r) = ''-'' \<and> is_number 2 (take 2 (drop 4 r)) \<and> 1 \<le> number (take 2 (drop 4 r)) \<and> number (take 2 (drop 4 r)) \<le> 31
         \<and> take 1 (drop 6 r) = ''T'' \<and> is_number 2 (take 2 (drop 7 r)) \<and> number (take 2 (drop 7 r)) \<le> 23
         \<and> take 1 (drop 9 r) = '':'' \<and> is_number 2 (take 2 (drop 10 r)) \<and> number (take 2 (drop 10 r)) \<le> 59
         \<and> take 1 (drop 12 r) = '':'' \<and> is_number 2 (take 2 (drop 13 r)) \<and> number (take 2 (drop 13 r)) \<le> 59
         \<and> take 1 (drop 15 r) = ''.'' \<and> is_number 3 (take 3 (drop 16 r))
         \<and> drop 19 r = ''Z''"
proof -
  from assms obtain m1 m2 where mo: "mo = [m1, m2]" using is_number_2 by blast
  from assms obtain d1 d2 where dy: "dy = [d1, d2]" using is_number_2 by blast
  from assms obtain h1 h2 where hh: "hh = [h1, h2]" using is_number_2 by blast
  from assms obtain n1 n2 where mi: "mi = [n1, n2]" using is_number_2 by blast
  from assms obtain s1 s2 where ss: "ss = [s1, s2]" using is_number_2 by blast
  from assms obtain f1 f2 f3 where fr: "fr = [f1, f2, f3]" using is_number_3 by blast
  have "r = [CHR ''-'', m1, m2, CHR ''-'', d1, d2, CHR ''T'', h1, h2, CHR '':'', n1, n2,
             CHR '':'', s1, s2, CHR ''.'', f1, f2, f3, CHR ''Z'']"
    by (simp add: r mo dy hh mi ss fr)
  with assms(2-14) show ?thesis
    by (simp add: mo dy hh mi ss fr)
qed

lemma plus_not_digit: "\<not> is_digit CHR ''+''"
  by (simp add: is_digit_def)

lemma is_number_4_not_plus:
  assumes "is_number 4 yr"
  shows "take 1 (yr @ r) \<noteq> ''+''"
proof -
  from assms have "length yr = Suc (Suc (Suc (Suc 0)))" by (simp add: is_number_def)
  then obtain a b c d where yr: "yr = [a, b, c, d]" by (auto simp: length_Suc_conv)
  with assms have "is_digit a" by (simp add: is_number_def)
  with plus_not_digit have "a \<noteq> CHR ''+''" by auto
  then show ?thesis by (simp add: yr)
qed

lemma toISOString_shape:
  "\<exists>y m d. toISOString ms =
     (if y \<le> 9999 then digits 4 y else ''+'' @ digits 6 y)
     @ ''-'' @ digits 2 m @ ''-'' @ digits 2 (Suc d)
     @ ''T'' @ digits 2 (ms mod 86400000 div 3600000) @ '':'' @ digits 2 (ms mod 86400000 div 60000 mod 60)
     @ '':'' @ digits 2 (ms mod 86400000 div 1000 mod 60) @ ''.'' @ digits 3 (ms mod 86400000 mod 1000) @ ''Z''
     \<and> 1 \<le> m \<and> m \<le> 12 \<and> d < 31"
proof -
  obtain y doy where yd: "year_of 1970 (ms div 86400000) = (y, doy)" by (cases "year_of 1970 (ms div 86400000)")
  obtain m d where md: "month_of (month_lengths y) 1 doy = (m, d)" by (cases "month_of (month_lengths y) 1 doy")
  from yd have "doy < days_in_year y" by (rule year_of_day)
  then have "doy < sum_list (month_lengths y)" by (simp add: sum_month_lengths)
  from month_of_range [OF this month_lengths_le md]
  have rng: "1 \<le> m \<and> m \<le> 12 \<and> d < 31" by (simp add: month_lengths_def)
  have "toISOString ms =
     (if y \<le> 9999 then digits 4 y else ''+'' @ digits 6 y)
     @ ''-'' @ digits 2 m @ ''-'' @ digits 2 (Suc d)
     @ ''T'' @ digits 2 (ms mod 86400000 div 3600000) @ '':'' @ digits 2 (ms mod 86400000 div 60000 mod 60)
     @ '':'' @ digits 2 (ms mod 86400000 div 1000 mod 60) @ ''.'' @ digits 3 (ms mod 86400000 mod 1000) @ ''Z''"
    using yd md by (simp add: toISOString_def Let_def)
  with rng show ?thesis by blast
qed

lemma number_digits_small: "n < 10 ^ w \<Longrightarrow> number (digits w n) = n"
  by (simp add: number_digits)

lemma number_digits_2: "n < 100 \<Longrightarrow> number (digits 2 n) = n"
  by (rule number_digits_small) simp

lemma time_of_day:
  fixes t :: nat
  assumes "t < 86400000"
  shows "t div 3600000 \<le> 23"
proof -
  from assms have "t < 24 * 3600000" by simp
  then have "t div 3600000 < 24" by (simp only: less_mult_imp_div_less)
  then show ?thesis by simp
qed

lemma toISOString_is_iso8601: "is_iso8601 (toISOString ms)"
proof -
  define hh where "hh = ms mod 86400000 div 3600000"
  define mi where "mi = ms mod 86400000 div 60000 mod 60"
  define ss where "ss = ms mod 86400000 div 1000 mod 60"
  define fr where "fr = ms mod 86400000 mod 1000"
  have hh: "hh \<le> 23" unfolding hh_def by (rule time_of_day) simp
  have mi: "mi \<le> 59" unfolding mi_def by (simp add: less_Suc_eq_le [symmetric])
  have ss: "ss \<le> 59" unfolding ss_def by (simp add: less_Suc_eq_le [symmetric])
  from toISOString_shape [of ms] obtain y m d where
    eq: "toISOString ms =
     (if y \<le> 9999 then digits 4 y else ''+'' @ digits 6 y)
     @ ''-'' @ digits 2 m @ ''-'' @ digits 2 (Suc d)
     @ ''T'' @ digits 2 hh @ '':'' @ digits 2 mi
     @ '':'' @ digits 2 ss @ ''.'' @ digits 3 fr @ ''Z''"
    and m: "1 \<le> m" "m \<le> 12" and d: "d < 31"
    unfolding hh_def mi_def ss_def fr_def by blast
  define r where "r = ''-'' @ digits 2 m @ ''-'' @ digits 2 (Suc d)
     @ ''T'' @ digits 2 hh @ '':'' @ digits 2 mi
     @ '':'' @ digits 2 ss @ ''.'' @ digits 3 fr @ ''Z''"
  have nm: "number (digits 2 m) = m" using m by (intro number_digits_2) simp
  have nd: "number (digits 2 (Suc d)) = Suc d" using d by (intro number_digits_2) simp
  have nh: "number (digits 2 hh) = hh" using hh by (intro number_digits_2) simp
  have ni: "number (digits 2 mi) = mi" using mi by (intro number_digits_2) simp
  have ns: "number (digits 2 ss) = ss" using ss by (intro number_digits_2) simp
  have tail: "length r = 20
         \<and> take 1 r = ''-'' \<and> is_number 2 (take 2 (drop 1 r)) \<and> 1 \<le> number (take 2 (drop 1 r)) \<and> number (take 2 (drop 1 r)) \<le> 12
         \<and> take 1 (drop 3 r) = ''-'' \<and> is_number 2 (take 2 (drop 4 r)) \<and> 1 \<le> number (take 2 (drop 4 r)) \<and> number (take 2 (drop 4 r)) \<le> 31
         \<and> take 1 (drop 6 r) = ''T'' \<and> is_number 2 (take 2 (drop 7 r)) \<and> number (take 2 (drop 7 r)) \<le> 23
         \<and> take 1 (drop 9 r) = '':'' \<and> is_number 2 (take 2 (drop 10 r)) \<and> number (take 2 (drop 10 r)) \<le> 59
         \<and> take 1 (drop 12 r) = '':'' \<and> is_number 2 (take 2 (drop 13 r)) \<and> number (take 2 (drop 13 r)) \<le> 59
         \<and> take 1 (drop 15 r) = ''.'' \<and> is_number 3 (take 3 (drop 16 r))
         \<and> drop 19 r = ''Z''"
  proof (rule is_iso8601_tail [OF r_def])
    show "is_number 2 (digits 2 m)" by (rule is_number_digits)
    show "1 \<le> number (digits 2 m)" using m by (simp only: nm)
    show "number (digits 2 m) \<le> 12" using m by (simp only: nm)
    show "is_number 2 (digits 2 (Suc d))" by (rule is_number_digits)
    show "1 \<le> number (digits 2 (Suc d))" by (simp add: nd)
    show "number (digits 2 (Suc d)) \<le> 31" using d by (simp add: nd)
    show "is_number 2 (digits 2 hh)" by (rule is_number_digits)
    show "number (digits 2 hh) \<le> 23" using hh by (simp only: nh)
    show "is_number 2 (digits 2 mi)" by (rule is_number_digits)
    show "number (digits 2 mi) \<le> 59" using mi by (simp only: ni)
    show "is_number 2 (digits 2 ss)" by (rule is_number_digits)
    show "number (digits 2 ss) \<le> 59" using ss by (simp only: ns)
    show "is_number 3 (digits 3 fr)" by (rule is_number_digits)
  qed
  show ?thesis
  proof (cases "y \<le> 9999")
    case True
    then have s: "toISOString ms = digits 4 y @ r" by (simp add: eq r_def)
    have "take 1 (digits 4 y @ r) \<noteq> ''+''" by (rule is_number_4_not_plus) (rule is_number_digits)
    moreover have "take 4 (digits 4 y @ r) = digits 4 y" by (simp add: length_digits)
    moreover have "drop 4 (digits 4 y @ r) = r" by (simp add: length_digits)
    moreover have "is_number 4 (digits 4 y)" by (rule is_number_digits)
    ultimately show ?thesis
      unfolding s is_iso8601_def Let_def using tail by simp
  next
    case False
    then have s: "toISOString ms = ''+'' @ digits 6 y @ r" by (simp add: eq r_def)
    have "take 1 (''+'' @ digits 6 y @ r) = ''+''" by simp
    moreover have "take 6 (drop 1 (''+'' @ digits 6 y @ r)) = digits 6 y" by (simp add: length_digits)
    moreover have "drop 7 (''+'' @ digits 6 y @ r) = r"
    proof -
      have "drop 7 (''+'' @ digits 6 y @ r) = drop 6 (digits 6 y @ r)"
        by (simp add: drop_Cons')
      then show ?thesis by (simp add: length_digits)
    qed
    moreover have "is_number 6 (digits 6 y)" by (rule is_number_digits)
    ultimately show ?thesis
      unfolding s is_iso8601_def Let_def using tail by simp
  qed
qed

lemma digits_numeral:
  "digits (numeral k) n = digits (pred_numeral k) (n div 10) @ [digit_char n]"
proof -
  have "numeral k = Suc (pred_numeral k)" by (rule numeral_eq_Suc)
  then show ?thesis by (simp only: digits.simps)
qed

lemmas toISOString_eval =
  toISOString_def year_of.simps days_in_year_def is_leap_def month_lengths_def
  digits_numeral digit_char_def

text \<open>
  C5. For every event and every reading of the clock the handler returns a response
  with the status 200, the headers \<^verbatim>\<open>Access-Control-Allow-Origin: *\<close> and
  \<^verbatim>\<open>Content-Type: application/json\<close>, and a body whose \<^verbatim>\<open>message\<close> is the non-empty string
  \<^verbatim>\<open>Hello from Lambda!\<close> and whose \<^verbatim>\<open>timestamp\<close> is the time of the invocation, written as
  an ISO-8601 string.
\<close>

theorem C5_handler_response:
  "\<exists>r. handler event now = Inr r
     \<and> statusCode r = 200
     \<and> map_of (headers r) ''Access-Control-Allow-Origin'' = Some ''*''
     \<and> map_of (headers r) ''Content-Type'' = Some ''application/json''
     \<and> body r = [(''message'', ''Hello from Lambda!''), (''timestamp'', toISOString now)]
     \<and> ''Hello from Lambda!'' \<noteq> []
     \<and> is_iso8601 (toISOString now)"
proof -
  have "is_iso8601 (toISOString now)" by (rule toISOString_is_iso8601)
  then show ?thesis by (simp add: handler_def)
qed

theorem C5_witness:
  "\<exists>r. handler ''not an event'' 1762905600000 = Inr r
     \<and> statusCode r = 200
     \<and> body r = [(''message'', ''Hello from Lambda!''),
                 (''timestamp'', ''2025-11-12T00:00:00.000Z'')]
     \<and> is_iso8601 ''2025-11-12T00:00:00.000Z''"
proof -
  have t: "toISOString 1762905600000 = ''2025-11-12T00:00:00.000Z''"
    by (simp add: toISOString_eval)
  from C5_handler_response [of "''not an event''" 1762905600000]
  show ?thesis by (simp only: t) blast
qed

text \<open>
  C6. The handler returns a response for every event and every reading of the clock (it
  never throws), and the response is the same for any two events, of whatever types,
  handled at the same time.
\<close>

theorem C6_handler_total_and_ignores_event:
  "\<not> isl (handler event1 now) \<and> handler event1 now = handler event2 now"
  by (simp add: handler_def)

theorem C6_witness:
  "\<not> isl (handler ''{ malformed'' 0) \<and> handler ''{ malformed'' 0 = handler (Some (42::nat)) 0"
  using C6_handler_total_and_ignores_event [of "''{ malformed''" 0 "Some (42::nat)"] .

end
